theory Spec2Isabelle
  imports Main
begin

section \<open>Shared vocabulary of the two Gmail commands\<close>

text \<open>
  Both commands live in \<^verbatim>\<open>internal/cmd/gmail_messages_modify.go\<close>. A Go \<^verbatim>\<open>error\<close>
  is a value of \<open>err\<close>: \<^verbatim>\<open>usage(msg)\<close> is \<open>Usage msg\<close>, \<^verbatim>\<open>fmt.Errorf("p: %w", e)\<close> is
  \<open>Wrap p e\<close>, and an error handed back by a collaborator is \<open>External\<close> with its text.
  A \<^verbatim>\<open>nil\<close> error is \<open>None\<close>.
\<close>

datatype err = Usage string | External string | Wrap string err

text \<open>The text of \<^verbatim>\<open>err.Error()\<close>, as \<^verbatim>\<open>%v\<close> prints it.\<close>

fun errorString :: "err \<Rightarrow> string" where
  "errorString (Usage m) = m"
| "errorString (External m) = m"
| "errorString (Wrap p e) = p @ '': '' @ errorString e"

text \<open>The values that occur in the \<^verbatim>\<open>map[string]any\<close> literals given to \<^verbatim>\<open>outfmt.WriteJSON\<close>.\<close>

datatype jval = JStr string | JInt int | JBool bool | JStrs "string list"

text \<open>
  Everything a run does to the outside world, in the order it does it: the construction of
  the service client, each remote call with its arguments, and each line written to the
  terminal.
\<close>

datatype event =
    NewService string
  | LabelsList
  | BatchModify "string list" "string list" "string list"
  | MessagesGet string
  | AttachmentsGet string string
  | MessagesSend string
  | ErrPrintf string
  | WriteJSON "(string \<times> jval) list"
  | OutPrintf string
  | OutSuccessf string

text \<open>The calls that reach the remote service.\<close>

fun isRemoteCall :: "event \<Rightarrow> bool" where
  "isRemoteCall LabelsList = True"
| "isRemoteCall (BatchModify _ _ _) = True"
| "isRemoteCall (MessagesGet _) = True"
| "isRemoteCall (AttachmentsGet _ _) = True"
| "isRemoteCall (MessagesSend _) = True"
| "isRemoteCall _ = False"

text \<open>\<^verbatim>\<open>%d\<close> of a non-negative Go \<^verbatim>\<open>int\<close>.\<close>

function itoa :: "nat \<Rightarrow> string" where
  "itoa n = (if n < 10 then [''0123456789'' ! n]
             else itoa (n div 10) @ [''0123456789'' ! (n mod 10)])"
  by pat_completeness auto
termination
  by (relation "measure id") auto

declare itoa.simps [simp del]

definition LF :: string where
  "LF = [CHR 0x0A]"

definition CRLF :: string where
  "CRLF = [CHR 0x0D, CHR 0x0A]"

definition DQUOTE :: string where
  "DQUOTE = [CHR 0x22]"

subsection \<open>The message tree of the Gmail API\<close>

text \<open>
  \<^verbatim>\<open>gmail.MessagePart\<close>: the MIME type, the file name, the header list, the attachment
  handle and the data of the body, and the child parts. An absent body is the empty
  string, Go's zero value.
\<close>

datatype MessagePart =
  MessagePart (mimeType: string) (filename: string) (headers: "(string \<times> string) list")
    (attachmentId: string) (bodyData: string) (parts: "MessagePart list")

text \<open>\<^verbatim>\<open>gmail.Message\<close> as the forward command reads it; \<open>Payload\<close> is a pointer.\<close>

record Message =
  Payload :: "MessagePart option"

text \<open>The descriptor \<^verbatim>\<open>attachmentInfo\<close>, with the three fields the command reads.\<close>

record attachmentInfo =
  AttachmentID :: string
  Filename :: string
  MimeType :: string

subsection \<open>The collaborators\<close>

text \<open>
  What \<^verbatim>\<open>Run\<close> calls but this file of the repository does not define: the account lookup,
  the CSV splitter, the label table and the label resolver, the header, body and
  attachment readers of a message tree, the base64 reader, the random boundary that
  \<^verbatim>\<open>multipart.NewWriter\<close> draws, the output mode, and the remote service. A run is a
  function of what they answer.
\<close>

record env =
  requireAccount :: "err + string"
  splitCSV :: "string \<Rightarrow> string list"
  newGmailService :: "string \<Rightarrow> err option"
  fetchLabelNameToID :: "err + (string \<rightharpoonup> string)"
  resolveLabelIDs :: "string list \<Rightarrow> (string \<rightharpoonup> string) \<Rightarrow> string list"
  batchModifyDo :: "string list \<Rightarrow> string list \<Rightarrow> string list \<Rightarrow> err option"
  isJSON :: bool
  writeJSON :: "(string \<times> jval) list \<Rightarrow> err option"
  messagesGet :: "string \<Rightarrow> err + Message"
  attachmentsGet :: "string \<Rightarrow> string \<Rightarrow> err + string"
  messagesSend :: "string \<Rightarrow> err + (string \<times> string)"
  headerValue :: "MessagePart option \<Rightarrow> string \<Rightarrow> string"
  bestBodyForDisplay :: "MessagePart option \<Rightarrow> string \<times> bool"
  collectAttachments :: "MessagePart option \<Rightarrow> attachmentInfo list"
  decodeBase64URLBytes :: "string \<Rightarrow> err + string"
  randomBoundary :: string

section \<open>The modify command\<close>

record GmailMessagesModifyCmd =
  IDs :: "string list"
  AddLabel :: string
  RemoveLabel :: string
  Archive :: bool

text \<open>Lines 54-60: the scan for \<^verbatim>\<open>"INBOX"\<close>, leaving the loop at the first hit.\<close>

fun hasInbox :: "string list \<Rightarrow> bool" where
  "hasInbox [] = False"
| "hasInbox (i # ids) = (if i = ''INBOX'' then True else hasInbox ids)"

text \<open>Lines 51-64: archive means remove from INBOX.\<close>

definition archiveMerge :: "bool \<Rightarrow> string list \<Rightarrow> string list" where
  "archiveMerge archive removeIDs =
     (if archive then
        (if \<not> hasInbox removeIDs then removeIDs @ [''INBOX''] else removeIDs)
      else removeIDs)"

text \<open>Lines 20-87. The result is the returned error and the trace of effects.\<close>

definition Run_modify :: "env \<Rightarrow> GmailMessagesModifyCmd \<Rightarrow> err option \<times> event list" where
  "Run_modify E c =
    (case requireAccount E of
       Inl e \<Rightarrow> (Some e, [])
     | Inr account \<Rightarrow>
        if length (IDs c) = 0 then (Some (Usage ''must specify --ids''), [])
        else
          let addLabels = splitCSV E (AddLabel c);
              removeLabels = splitCSV E (RemoveLabel c)
          in
          if length addLabels = 0 \<and> length removeLabels = 0 \<and> \<not> Archive c
          then (Some (Usage ''must specify --add-label, --remove-label, and/or --archive''), [])
          else
            (case newGmailService E account of
               Some e \<Rightarrow> (Some e, [NewService account])
             | None \<Rightarrow>
                (case fetchLabelNameToID E of
                   Inl e \<Rightarrow> (Some e, [NewService account, LabelsList])
                 | Inr idMap \<Rightarrow>
                    let addIDs = resolveLabelIDs E addLabels idMap;
                        removeIDs = archiveMerge (Archive c) (resolveLabelIDs E removeLabels idMap);
                        tr = [NewService account, LabelsList, BatchModify (IDs c) addIDs removeIDs]
                    in
                    (case batchModifyDo E (IDs c) addIDs removeIDs of
                       Some e \<Rightarrow> (Some e, tr)
                     | None \<Rightarrow>
                        if isJSON E then
                          (let out = [(''modified'', JStrs (IDs c)),
                                      (''count'', JInt (int (length (IDs c)))),
                                      (''addedLabels'', JStrs addIDs),
                                      (''removedLabels'', JStrs removeIDs),
                                      (''archived'', JBool (Archive c))]
                           in (writeJSON E out, tr @ [WriteJSON out]))
                        else
                          (None, tr @ [OutPrintf (''Modified '' @ itoa (length (IDs c)) @ '' message(s)'')])))))"

section \<open>The forward command\<close>

text \<open>
  The file holds the command twice: lines 103-187 are the first cut, which sends the text
  alone, and lines 208-365 are the one that re-attaches the attachments. Both declare
  \<^verbatim>\<open>GmailMessagesForwardCmd\<close> in the same package, so only one of them is the program; the
  model is the later one.
\<close>

record GmailMessagesForwardCmd =
  MessageID :: string
  To :: string
  Subject :: string

subsection \<open>\<^verbatim>\<open>strings.TrimSpace\<close>\<close>

text \<open>
  The UTF-8 encodings of the code points for which \<^verbatim>\<open>unicode.IsSpace\<close> holds: the six
  ASCII ones, U+0085, U+00A0, U+1680, U+2000 to U+200A, U+2028, U+2029, U+202F, U+205F
  and U+3000.
\<close>

definition spaceRunes :: "string list" where
  "spaceRunes =
    [[CHR 0x09], [CHR 0x0A], [CHR 0x0B], [CHR 0x0C], [CHR 0x0D], [CHR 0x20],
     [CHR 0xC2, CHR 0x85], [CHR 0xC2, CHR 0xA0], [CHR 0xE1, CHR 0x9A, CHR 0x80],
     [CHR 0xE2, CHR 0x80, CHR 0x80], [CHR 0xE2, CHR 0x80, CHR 0x81],
     [CHR 0xE2, CHR 0x80, CHR 0x82], [CHR 0xE2, CHR 0x80, CHR 0x83],
     [CHR 0xE2, CHR 0x80, CHR 0x84], [CHR 0xE2, CHR 0x80, CHR 0x85],
     [CHR 0xE2, CHR 0x80, CHR 0x86], [CHR 0xE2, CHR 0x80, CHR 0x87],
     [CHR 0xE2, CHR 0x80, CHR 0x88], [CHR 0xE2, CHR 0x80, CHR 0x89],
     [CHR 0xE2, CHR 0x80, CHR 0x8A], [CHR 0xE2, CHR 0x80, CHR 0xA8],
     [CHR 0xE2, CHR 0x80, CHR 0xA9], [CHR 0xE2, CHR 0x80, CHR 0xAF],
     [CHR 0xE2, CHR 0x81, CHR 0x9F], [CHR 0xE3, CHR 0x80, CHR 0x80]]"

text \<open>The rune at the front of \<open>s\<close>, when it is one of \<open>rs\<close>.\<close>

definition leadingRune :: "string list \<Rightarrow> string \<Rightarrow> string option" where
  "leadingRune rs s = find (\<lambda>r. r \<noteq> [] \<and> take (length r) s = r) rs"

function trimRunes :: "string list \<Rightarrow> string \<Rightarrow> string" where
  "trimRunes rs s =
     (case leadingRune rs s of None \<Rightarrow> s | Some r \<Rightarrow> trimRunes rs (drop (length r) s))"
  by pat_completeness auto
termination
proof (relation "measure (\<lambda>(rs, s). length s)")
  show "wf (measure (\<lambda>(rs, s). length s))"
    by simp
next
  fix rs :: "string list" and s r :: string
  assume "leadingRune rs s = Some r"
  then have r: "r \<noteq> []" and t: "take (length r) s = r"
    by (auto simp: leadingRune_def find_Some_iff)
  from t have "length (take (length r) s) = length r"
    by simp
  then have "length r \<le> length s"
    by simp
  with r have "length (drop (length r) s) < length s"
    by (cases r) auto
  then show "((rs, drop (length r) s), (rs, s)) \<in> measure (\<lambda>(rs, s). length s)"
    by simp
qed

declare trimRunes.simps [simp del]

text \<open>White space runes go from the front, then from the back.\<close>

definition TrimSpace :: "string \<Rightarrow> string" where
  "TrimSpace s = rev (trimRunes (map rev spaceRunes) (rev (trimRunes spaceRunes s)))"

subsection \<open>\<^verbatim>\<open>encoding/base64\<close>\<close>

definition encodeStd :: string where
  "encodeStd = ''ABCDEFGHIJKLMNOPQRSTUVWXYZabcdefghijklmnopqrstuvwxyz0123456789+/''"

definition encodeURL :: string where
  "encodeURL = ''ABCDEFGHIJKLMNOPQRSTUVWXYZabcdefghijklmnopqrstuvwxyz0123456789-_''"

text \<open>\<^verbatim>\<open>EncodeToString\<close> of a padded encoding with the alphabet \<open>al\<close>.\<close>

fun EncodeToString :: "string \<Rightarrow> string \<Rightarrow> string" where
  "EncodeToString al (a # b # c # rest) =
     (let n = (of_char a :: nat) * 65536 + of_char b * 256 + of_char c
      in [al ! (n div 262144), al ! (n div 4096 mod 64), al ! (n div 64 mod 64), al ! (n mod 64)]
         @ EncodeToString al rest)"
| "EncodeToString al [a, b] =
     (let n = (of_char a :: nat) * 65536 + of_char b * 256
      in [al ! (n div 262144), al ! (n div 4096 mod 64), al ! (n div 64 mod 64), CHR ''=''])"
| "EncodeToString al [a] =
     (let n = (of_char a :: nat) * 65536
      in [al ! (n div 262144), al ! (n div 4096 mod 64), CHR ''='', CHR ''=''])"
| "EncodeToString al [] = []"

text \<open>Lines 362-365.\<close>

definition encodeWeb64 :: "string \<Rightarrow> string" where
  "encodeWeb64 s = EncodeToString encodeURL s"

subsection \<open>\<^verbatim>\<open>net/textproto\<close> and \<^verbatim>\<open>mime/multipart\<close>\<close>

text \<open>
  A \<^verbatim>\<open>textproto.MIMEHeader\<close> with one value for each key, as \<^verbatim>\<open>Set\<close> leaves it. The keys
  the command sets are in canonical form already.
\<close>

type_synonym MIMEHeader = "(string \<times> string) list"

definition headerSet :: "string \<Rightarrow> string \<Rightarrow> MIMEHeader \<Rightarrow> MIMEHeader" where
  "headerSet k v h = filter (\<lambda>kv. fst kv \<noteq> k) h @ [(k, v)]"

text \<open>The order of Go strings: byte by byte.\<close>

fun bytesLess :: "string \<Rightarrow> string \<Rightarrow> bool" where
  "bytesLess [] [] = False"
| "bytesLess [] (y # ys) = True"
| "bytesLess (x # xs) [] = False"
| "bytesLess (x # xs) (y # ys) =
     (if (of_char x :: nat) < of_char y then True
      else if (of_char y :: nat) < of_char x then False
      else bytesLess xs ys)"

fun insertKey :: "string \<times> string \<Rightarrow> MIMEHeader \<Rightarrow> MIMEHeader" where
  "insertKey kv [] = [kv]"
| "insertKey kv (x # xs) = (if bytesLess (fst x) (fst kv) then x # insertKey kv xs else kv # x # xs)"

text \<open>The header in the order of its sorted keys, as \<^verbatim>\<open>CreatePart\<close> writes it.\<close>

definition sortedHeader :: "MIMEHeader \<Rightarrow> MIMEHeader" where
  "sortedHeader h = foldr insertKey h []"

text \<open>
  \<^verbatim>\<open>multipart.Writer\<close> over a \<^verbatim>\<open>bytes.Buffer\<close>: the bytes written so far, the boundary,
  and whether a part has been opened.
\<close>

record Writer =
  buf :: string
  boundary :: string
  lastpart :: bool

definition NewWriter :: "string \<Rightarrow> Writer" where
  "NewWriter b = \<lparr> buf = [], boundary = b, lastpart = False \<rparr>"

text \<open>
  \<^verbatim>\<open>CreatePart\<close>, a write to the open part, and \<^verbatim>\<open>Close\<close> return an error only when the
  sink does; the buffer never does. The error result is kept, as the command tests it.
\<close>

definition CreatePart :: "MIMEHeader \<Rightarrow> Writer \<Rightarrow> err + Writer" where
  "CreatePart header w =
     Inr (w \<lparr> buf := buf w
               @ (if lastpart w then CRLF @ ''--'' @ boundary w @ CRLF
                  else ''--'' @ boundary w @ CRLF)
               @ concat (map (\<lambda>kv. fst kv @ '': '' @ snd kv @ CRLF) (sortedHeader header))
               @ CRLF,
             lastpart := True \<rparr>)"

definition partWrite :: "string \<Rightarrow> Writer \<Rightarrow> err + Writer" where
  "partWrite bs w = Inr (w \<lparr> buf := buf w @ bs \<rparr>)"

definition Close :: "Writer \<Rightarrow> err + Writer" where
  "Close w = Inr (w \<lparr> buf := buf w @ CRLF @ ''--'' @ boundary w @ ''--'' @ CRLF, lastpart := False \<rparr>)"

subsection \<open>\<^verbatim>\<open>addAttachmentToMultipart\<close>, lines 326-360\<close>

text \<open>
  The result is the returned error, the writer afterwards, and the remote calls made. The
  streaming encoder of \<^verbatim>\<open>base64.NewEncoder\<close>, written once and closed, puts into the
  part what \<^verbatim>\<open>EncodeToString\<close> of the standard encoding gives.
\<close>

definition addAttachmentToMultipart ::
  "env \<Rightarrow> Writer \<Rightarrow> string \<Rightarrow> attachmentInfo \<Rightarrow> err option \<times> Writer \<times> event list" where
  "addAttachmentToMultipart E writer messageID att =
    (let tr = [AttachmentsGet messageID (AttachmentID att)] in
     case attachmentsGet E messageID (AttachmentID att) of
       Inl e \<Rightarrow> (Some (Wrap ''fetching attachment'' e), writer, tr)
     | Inr attachData \<Rightarrow>
        (case decodeBase64URLBytes E attachData of
           Inl e \<Rightarrow> (Some (Wrap ''decoding attachment data'' e), writer, tr)
         | Inr data \<Rightarrow>
            let header = headerSet ''Content-Transfer-Encoding'' ''base64''
                          (headerSet ''Content-Disposition''
                             (''attachment; filename='' @ DQUOTE @ Filename att @ DQUOTE)
                             (headerSet ''Content-Type'' (MimeType att) []))
            in
            (case CreatePart header writer of
               Inl e \<Rightarrow> (Some (Wrap ''creating attachment part'' e), writer, tr)
             | Inr part \<Rightarrow>
                (case partWrite (EncodeToString encodeStd data) part of
                   Inl e \<Rightarrow> (Some (Wrap ''writing attachment data'' e), part, tr)
                 | Inr written \<Rightarrow> (None, written, tr)))))"

text \<open>Lines 280-286: the loop over the attachments, a warning for each one that fails.\<close>

fun attachAll :: "env \<Rightarrow> string \<Rightarrow> attachmentInfo list \<Rightarrow> Writer \<Rightarrow> Writer \<times> event list" where
  "attachAll E messageID [] writer = (writer, [])"
| "attachAll E messageID (att # atts) writer =
     (case addAttachmentToMultipart E writer messageID att of
        (Some e, w, tr) \<Rightarrow>
          (let (w', tr') = attachAll E messageID atts w
           in (w', tr @ [ErrPrintf (''Warning: failed to attach '' @ Filename att @ '': ''
                                     @ errorString e)] @ tr'))
      | (None, w, tr) \<Rightarrow>
          (let (w', tr') = attachAll E messageID atts w in (w', tr @ tr')))"

subsection \<open>\<^verbatim>\<open>GmailMessagesForwardCmd.Run\<close>, lines 214-323\<close>

text \<open>Lines 248-252.\<close>

definition buildSubject :: "string \<Rightarrow> string \<Rightarrow> string" where
  "buildSubject subjectFlag originalSubject =
     (if subjectFlag = [] then ''Fwd: '' @ originalSubject else subjectFlag)"

text \<open>Lines 254-257.\<close>

definition buildForwardBody :: "env \<Rightarrow> MessagePart option \<Rightarrow> string" where
  "buildForwardBody E p =
     ''---------- Forwarded message ----------'' @ LF
     @ ''From: '' @ headerValue E p ''From'' @ LF
     @ ''Date: '' @ headerValue E p ''Date'' @ LF
     @ ''Subject: '' @ headerValue E p ''Subject'' @ LF
     @ ''To: '' @ headerValue E p ''To'' @ LF @ LF
     @ fst (bestBodyForDisplay E p)"

text \<open>Lines 293-299.\<close>

definition buildRawMessage :: "string \<Rightarrow> string \<Rightarrow> string \<Rightarrow> string \<Rightarrow> string" where
  "buildRawMessage to subject contentType mimeMsg =
     ''To: '' @ to @ CRLF
     @ ''Subject: '' @ subject @ CRLF
     @ ''Content-Type: '' @ contentType @ CRLF
     @ CRLF
     @ mimeMsg"

definition Run_forward :: "env \<Rightarrow> GmailMessagesForwardCmd \<Rightarrow> err option \<times> event list" where
  "Run_forward E c =
    (case requireAccount E of
       Inl e \<Rightarrow> (Some e, [])
     | Inr account \<Rightarrow>
        let messageID = TrimSpace (MessageID c) in
        if messageID = [] then (Some (Usage ''message ID is required''), [])
        else
          let to = TrimSpace (To c) in
          if to = [] then (Some (Usage ''--to is required''), [])
          else
            (case newGmailService E account of
               Some e \<Rightarrow> (Some e, [NewService account])
             | None \<Rightarrow>
                (case messagesGet E messageID of
                   Inl e \<Rightarrow> (Some (Wrap ''fetching message'' e),
                             [NewService account, MessagesGet messageID])
                 | Inr original \<Rightarrow>
                    let tr0 = [NewService account, MessagesGet messageID];
                        subject = buildSubject (Subject c)
                                    (headerValue E (Payload original) ''Subject'');
                        forwardBody = buildForwardBody E (Payload original);
                        attachments = collectAttachments E (Payload original);
                        writer = NewWriter (randomBoundary E);
                        contentType = ''multipart/mixed; boundary='' @ DQUOTE @ boundary writer @ DQUOTE
                    in
                    (case CreatePart (headerSet ''Content-Type'' ''text/plain; charset=utf-8'' []) writer of
                       Inl e \<Rightarrow> (Some (Wrap ''creating text part'' e), tr0)
                     | Inr textPart \<Rightarrow>
                        (case partWrite forwardBody textPart of
                           Inl e \<Rightarrow> (Some (Wrap ''writing text part'' e), tr0)
                         | Inr w1 \<Rightarrow>
                            let (w2, tr1) = attachAll E messageID attachments w1 in
                            (case Close w2 of
                               Inl e \<Rightarrow> (Some (Wrap ''closing multipart writer'' e), tr0 @ tr1)
                             | Inr w3 \<Rightarrow>
                                let raw = encodeWeb64 (buildRawMessage to subject contentType (buf w3)) in
                                (case messagesSend E raw of
                                   Inl e \<Rightarrow> (Some (Wrap ''sending forwarded message'' e),
                                             tr0 @ tr1 @ [MessagesSend raw])
                                 | Inr (sentId, threadId) \<Rightarrow>
                                    if isJSON E then
                                      (let out = [(''sent'', JStr sentId),
                                                  (''threadId'', JStr threadId),
                                                  (''to'', JStr to),
                                                  (''subject'', JStr subject),
                                                  (''forwarded'', JStr messageID),
                                                  (''attachments'', JInt (int (length attachments)))]
                                       in (writeJSON E out,
                                           tr0 @ tr1 @ [MessagesSend raw, WriteJSON out]))
                                    else
                                      (None,
                                       tr0 @ tr1 @
                                       [MessagesSend raw,
                                        OutSuccessf (''Forwarded message '' @ messageID @ '' to '' @ to
                                          @ '' with '' @ itoa (length attachments)
                                          @ '' attachment(s) (sent: '' @ sentId @ '')'')]))))))))"

section \<open>The readers of the message tree, from the specification\<close>

text \<open>All parts of a tree in pre-order: a node before its children, children left to right.\<close>

fun allParts :: "MessagePart \<Rightarrow> MessagePart list" where
  "allParts (MessagePart m f h a d ps) = MessagePart m f h a d ps # concat (map allParts ps)"

text \<open>
  Modelled from the spec: \<^verbatim>\<open>decodeBase64URL\<close>, the reader of \<open>bodyData\<close>, is not under
  src/. The specification says the data is URL-safe base64 and that a decoding failure
  is possible; this reader takes the URL-safe alphabet, with or without the padding of the
  last group, and fails on any other character and on a lone last character.
\<close>

fun indexOf :: "char \<Rightarrow> string \<Rightarrow> nat option" where
  "indexOf c [] = None"
| "indexOf c (x # xs) = (if c = x then Some 0 else map_option Suc (indexOf c xs))"

definition b64urlValue :: "char \<Rightarrow> nat option" where
  "b64urlValue c = indexOf c encodeURL"

text \<open>The bytes of a last group of two or three characters, and of a full group of four.\<close>

definition decode2 :: "char \<Rightarrow> char \<Rightarrow> string option" where
  "decode2 a b =
     (case (b64urlValue a, b64urlValue b) of
        (Some x, Some y) \<Rightarrow> Some [char_of (x * 4 + y div 16)]
      | _ \<Rightarrow> None)"

definition decode3 :: "char \<Rightarrow> char \<Rightarrow> char \<Rightarrow> string option" where
  "decode3 a b c =
     (case (b64urlValue a, b64urlValue b, b64urlValue c) of
        (Some x, Some y, Some z) \<Rightarrow>
          Some [char_of (x * 4 + y div 16), char_of ((y mod 16) * 16 + z div 4)]
      | _ \<Rightarrow> None)"

definition decode4 :: "char \<Rightarrow> char \<Rightarrow> char \<Rightarrow> char \<Rightarrow> string option" where
  "decode4 a b c d =
     (case (b64urlValue a, b64urlValue b, b64urlValue c, b64urlValue d) of
        (Some x, Some y, Some z, Some u) \<Rightarrow>
          Some [char_of (x * 4 + y div 16), char_of ((y mod 16) * 16 + z div 4),
                char_of ((z mod 4) * 64 + u)]
      | _ \<Rightarrow> None)"

fun decodeBase64URL :: "string \<Rightarrow> string option" where
  "decodeBase64URL (a # b # c # d # rest) =
     (if rest = [] \<and> d = CHR ''='' then
        (if c = CHR ''='' then decode2 a b else decode3 a b c)
      else
        (case decode4 a b c d of
           None \<Rightarrow> None
         | Some bs \<Rightarrow>
            (case decodeBase64URL rest of None \<Rightarrow> None | Some bs' \<Rightarrow> Some (bs @ bs'))))"
| "decodeBase64URL [a, b, c] = decode3 a b c"
| "decodeBase64URL [a, b] = decode2 a b"
| "decodeBase64URL [a] = None"
| "decodeBase64URL [] = Some []"


text \<open>
  Modelled from the spec: \<^verbatim>\<open>bestBodyForDisplay\<close> is not under src/. Section 4.2: a part
  is a candidate for a MIME type when it has that type and non-empty body data; a
  candidate whose data does not decode contributes nothing and the walk goes on; the walk
  is in pre-order and the first hit wins. Plain text is looked for in the whole tree first,
  HTML only when there is none, and the flag tells that the fallback was taken.
\<close>

fun findPartBody :: "string \<Rightarrow> MessagePart \<Rightarrow> string option"
  and findPartsBody :: "string \<Rightarrow> MessagePart list \<Rightarrow> string option" where
  "findPartBody mt (MessagePart m f h a d ps) =
     (if m = mt \<and> d \<noteq> [] then
        (case decodeBase64URL d of Some s \<Rightarrow> Some s | None \<Rightarrow> findPartsBody mt ps)
      else findPartsBody mt ps)"
| "findPartsBody mt [] = None"
| "findPartsBody mt (p # ps) =
     (case findPartBody mt p of Some s \<Rightarrow> Some s | None \<Rightarrow> findPartsBody mt ps)"

definition bestBodyForDisplay_spec :: "MessagePart \<Rightarrow> string \<times> bool" where
  "bestBodyForDisplay_spec p =
     (case findPartBody ''text/plain'' p of
        Some s \<Rightarrow> (s, False)
      | None \<Rightarrow>
         (case findPartBody ''text/html'' p of
            Some s \<Rightarrow> (s, True)
          | None \<Rightarrow> ([], False)))"

text \<open>The decoded contents of the candidates for a MIME type, in pre-order.\<close>

definition candidates :: "string \<Rightarrow> MessagePart \<Rightarrow> string list" where
  "candidates mt t =
     List.map_filter
       (\<lambda>p. if mimeType p = mt \<and> bodyData p \<noteq> [] then decodeBase64URL (bodyData p) else None)
       (allParts t)"

text \<open>What the claim about the selector asks of a tree, in its own words.\<close>

definition hasPartWithData :: "string \<Rightarrow> MessagePart \<Rightarrow> bool" where
  "hasPartWithData mt t = list_ex (\<lambda>p. mimeType p = mt \<and> bodyData p \<noteq> []) (allParts t)"

definition hasPart :: "string \<Rightarrow> MessagePart \<Rightarrow> bool" where
  "hasPart mt t = list_ex (\<lambda>p. mimeType p = mt) (allParts t)"

text \<open>
  Modelled from the spec: \<^verbatim>\<open>headerValue\<close> is not under src/. Section 4.1: the value of
  the first header whose name matches without regard to case, or the empty string.
\<close>

definition asciiLower :: "char \<Rightarrow> char" where
  "asciiLower c = (let n = (of_char c :: nat) in if 65 \<le> n \<and> n \<le> 90 then char_of (n + 32) else c)"

definition headerValue_spec :: "MessagePart option \<Rightarrow> string \<Rightarrow> string" where
  "headerValue_spec p name =
     (case p of
        None \<Rightarrow> []
      | Some m \<Rightarrow>
         (case find (\<lambda>kv. map asciiLower (fst kv) = map asciiLower name) (headers m) of
            None \<Rightarrow> []
          | Some kv \<Rightarrow> snd kv))"

text \<open>
  Modelled from the spec: \<^verbatim>\<open>collectAttachments\<close> is not under src/. Section 4.3: the
  leaf parts that carry a file name and an attachment handle, in pre-order.
\<close>

definition collectAttachments_spec :: "MessagePart option \<Rightarrow> attachmentInfo list" where
  "collectAttachments_spec p =
     (case p of
        None \<Rightarrow> []
      | Some m \<Rightarrow>
         map (\<lambda>q. \<lparr> AttachmentID = attachmentId q, Filename = filename q, MimeType = mimeType q \<rparr>)
           (filter (\<lambda>q. parts q = [] \<and> filename q \<noteq> [] \<and> attachmentId q \<noteq> []) (allParts m)))"

section \<open>What a forward run composes\<close>

text \<open>
  The outcome of the first half of \<^verbatim>\<open>addAttachmentToMultipart\<close> for one attachment: the
  decoded bytes, or the error it returns when the fetch or the decoding fails.
\<close>

definition fetched :: "env \<Rightarrow> string \<Rightarrow> attachmentInfo \<Rightarrow> err + string" where
  "fetched E messageID att =
     (case attachmentsGet E messageID (AttachmentID att) of
        Inl e \<Rightarrow> Inl (Wrap ''fetching attachment'' e)
      | Inr attachData \<Rightarrow>
         (case decodeBase64URLBytes E attachData of
            Inl e \<Rightarrow> Inl (Wrap ''decoding attachment data'' e)
          | Inr data \<Rightarrow> Inr data))"

text \<open>The bytes of a part between two delimiter lines: its header lines, a blank line, its content.\<close>

definition textPartBytes :: "string \<Rightarrow> string" where
  "textPartBytes body = ''Content-Type: text/plain; charset=utf-8'' @ CRLF @ CRLF @ body"

definition attachmentPartBytes :: "attachmentInfo \<Rightarrow> string \<Rightarrow> string" where
  "attachmentPartBytes att data =
     ''Content-Disposition: attachment; filename='' @ DQUOTE @ Filename att @ DQUOTE @ CRLF
     @ ''Content-Transfer-Encoding: base64'' @ CRLF
     @ ''Content-Type: '' @ MimeType att @ CRLF
     @ CRLF
     @ EncodeToString encodeStd data"

text \<open>The parts of the attachments that are embedded: those whose fetch and decoding succeed.\<close>

definition embeddedParts :: "env \<Rightarrow> string \<Rightarrow> attachmentInfo list \<Rightarrow> string list" where
  "embeddedParts E messageID atts =
     List.map_filter
       (\<lambda>att. case fetched E messageID att of
                Inl e \<Rightarrow> None
              | Inr data \<Rightarrow> Some (attachmentPartBytes att data))
       atts"

definition attachWarning :: "attachmentInfo \<Rightarrow> err \<Rightarrow> string" where
  "attachWarning att e = ''Warning: failed to attach '' @ Filename att @ '': '' @ errorString e"

text \<open>One fetch for each attachment, in order, and a warning after each fetch that fails.\<close>

definition attachTrace :: "env \<Rightarrow> string \<Rightarrow> attachmentInfo list \<Rightarrow> event list" where
  "attachTrace E messageID atts =
     concat (map (\<lambda>att. AttachmentsGet messageID (AttachmentID att)
                     # (case fetched E messageID att of
                          Inl e \<Rightarrow> [ErrPrintf (attachWarning att e)]
                        | Inr data \<Rightarrow> []))
              atts)"

text \<open>A multipart body: the parts, each after a delimiter line of the boundary, and the closing line.\<close>

definition multipartBody :: "string \<Rightarrow> string list \<Rightarrow> string" where
  "multipartBody b ps =
     (case ps of
        [] \<Rightarrow> []
      | p # qs \<Rightarrow> ''--'' @ b @ CRLF @ p @ concat (map (\<lambda>q. CRLF @ ''--'' @ b @ CRLF @ q) qs))
     @ CRLF @ ''--'' @ b @ ''--'' @ CRLF"

text \<open>The bytes that are encoded and sent.\<close>

definition composedMessage :: "env \<Rightarrow> GmailMessagesForwardCmd \<Rightarrow> Message \<Rightarrow> string" where
  "composedMessage E c original =
     buildRawMessage (TrimSpace (To c))
       (buildSubject (Subject c) (headerValue E (Payload original) ''Subject''))
       (''multipart/mixed; boundary='' @ DQUOTE @ randomBoundary E @ DQUOTE)
       (multipartBody (randomBoundary E)
          (textPartBytes (buildForwardBody E (Payload original))
           # embeddedParts E (TrimSpace (MessageID c)) (collectAttachments E (Payload original))))"

text \<open>The two forms of the result, lines 309-321.\<close>

definition forwardResult ::
  "env \<Rightarrow> GmailMessagesForwardCmd \<Rightarrow> Message \<Rightarrow> string \<Rightarrow> string \<Rightarrow> (string \<times> jval) list" where
  "forwardResult E c original sentId threadId =
     [(''sent'', JStr sentId),
      (''threadId'', JStr threadId),
      (''to'', JStr (TrimSpace (To c))),
      (''subject'', JStr (buildSubject (Subject c) (headerValue E (Payload original) ''Subject''))),
      (''forwarded'', JStr (TrimSpace (MessageID c))),
      (''attachments'', JInt (int (length (collectAttachments E (Payload original)))))]"

definition forwardSuccessLine ::
  "env \<Rightarrow> GmailMessagesForwardCmd \<Rightarrow> Message \<Rightarrow> string \<Rightarrow> string" where
  "forwardSuccessLine E c original sentId =
     ''Forwarded message '' @ TrimSpace (MessageID c) @ '' to '' @ TrimSpace (To c)
     @ '' with '' @ itoa (length (collectAttachments E (Payload original)))
     @ '' attachment(s) (sent: '' @ sentId @ '')''"

section \<open>A test environment\<close>

text \<open>
  The environment of the repository's tests: the account \<^verbatim>\<open>a@b.com\<close>, a label table with
  the inbox, a service that accepts every send, and two messages. The collaborators that
  the repository defines elsewhere are the ones modelled from the specification; the CSV
  splitter cuts at commas and drops empty pieces.
\<close>

fun splitOn :: "char \<Rightarrow> string \<Rightarrow> string list" where
  "splitOn sep [] = [[]]"
| "splitOn sep (c # cs) =
     (if c = sep then [] # splitOn sep cs
      else (case splitOn sep cs of p # ps \<Rightarrow> (c # p) # ps | [] \<Rightarrow> [[c]]))"

definition splitCommas :: "string \<Rightarrow> string list" where
  "splitCommas s = filter (\<lambda>p. p \<noteq> []) (splitOn (CHR '','') s)"

text \<open>
  Modelled from the spec: \<^verbatim>\<open>resolveLabelIDs\<close> is not under src/. Section 4.5: each name
  is looked up in the table, and a name with no match is dropped.
\<close>

definition resolveLabelIDs_spec :: "string list \<Rightarrow> (string \<rightharpoonup> string) \<Rightarrow> string list" where
  "resolveLabelIDs_spec names tbl = List.map_filter tbl names"

definition testHeaders :: "(string \<times> string) list" where
  "testHeaders =
     [(''From'', ''sender@example.com''), (''To'', ''me@example.com''),
      (''Subject'', ''Original Subject''), (''Date'', ''Mon, 03 Feb 2026 10:00:00 -0800'')]"

definition helloMessage :: Message where
  "helloMessage =
     \<lparr> Payload = Some (MessagePart ''text/plain'' [] testHeaders [] ''SGVsbG8gV29ybGQ='' []) \<rparr>"

definition reportMessage :: Message where
  "reportMessage =
     \<lparr> Payload = Some (MessagePart ''multipart/mixed'' [] testHeaders [] []
         [MessagePart ''text/plain'' [] [] [] ''SGVsbG8gV29ybGQ='' [],
          MessagePart ''application/pdf'' ''report.pdf'' [] ''att-ok'' [] [],
          MessagePart ''image/png'' ''photo.png'' [] ''att-gone'' [] []]) \<rparr>"

definition testBoundary :: string where
  "testBoundary = ''3f1c0a9d5e7b2846c1d0e9f8a7b6c5d4e3f2a1b0c9d8e7f6a5b4c3d2e1f0''"

definition testEnv :: env where
  "testEnv =
     \<lparr> requireAccount = Inr ''a@b.com'',
       splitCSV = splitCommas,
       newGmailService = (\<lambda>account. None),
       fetchLabelNameToID = Inr [''INBOX'' \<mapsto> ''INBOX''],
       resolveLabelIDs = resolveLabelIDs_spec,
       batchModifyDo = (\<lambda>ids add rem. None),
       isJSON = True,
       writeJSON = (\<lambda>out. None),
       messagesGet = (\<lambda>i. if i = ''m1'' then Inr helloMessage
                          else if i = ''m2'' then Inr reportMessage
                          else Inl (External ''not found'')),
       attachmentsGet = (\<lambda>i a. if a = ''att-ok'' then Inr ''SGVsbG8h''
                               else Inl (External ''not found'')),
       messagesSend = (\<lambda>raw. Inr (''sent123'', ''t1'')),
       headerValue = headerValue_spec,
       bestBodyForDisplay = (\<lambda>p. case p of None \<Rightarrow> ([], False)
                                   | Some m \<Rightarrow> bestBodyForDisplay_spec m),
       collectAttachments = collectAttachments_spec,
       decodeBase64URLBytes = (\<lambda>s. case decodeBase64URL s of
                                      None \<Rightarrow> Inl (External ''illegal base64 data'')
                                    | Some bs \<Rightarrow> Inr bs),
       randomBoundary = testBoundary \<rparr>"

definition archiveOnly :: GmailMessagesModifyCmd where
  "archiveOnly = \<lparr> IDs = [''m1''], AddLabel = [], RemoveLabel = [], Archive = True \<rparr>"

definition archiveAndRemoveInbox :: GmailMessagesModifyCmd where
  "archiveAndRemoveInbox =
     \<lparr> IDs = [''m1''], AddLabel = [], RemoveLabel = ''INBOX'', Archive = True \<rparr>"

definition archiveAndRemoveInboxTwice :: GmailMessagesModifyCmd where
  "archiveAndRemoveInboxTwice =
     \<lparr> IDs = [''m1''], AddLabel = [], RemoveLabel = ''INBOX,INBOX'', Archive = True \<rparr>"

definition forwardHello :: GmailMessagesForwardCmd where
  "forwardHello = \<lparr> MessageID = ''m1'', To = ''recipient@example.com'', Subject = [] \<rparr>"

definition forwardCustom :: GmailMessagesForwardCmd where
  "forwardCustom =
     \<lparr> MessageID = ''m1'', To = ''recipient@example.com'', Subject = ''Custom Forward Subject'' \<rparr>"

definition forwardReport :: GmailMessagesForwardCmd where
  "forwardReport = \<lparr> MessageID = ''m2'', To = ''recipient@example.com'', Subject = [] \<rparr>"

definition forwardBlankTo :: GmailMessagesForwardCmd where
  "forwardBlankTo = \<lparr> MessageID = ''m1'', To = ''  '', Subject = [] \<rparr>"

text \<open>Two trees for the selector: the plain part of the first does not decode.\<close>

definition undecodablePlainTree :: MessagePart where
  "undecodablePlainTree =
     MessagePart ''multipart/alternative'' [] [] [] []
       [MessagePart ''text/plain'' [] [] [] ''!!!!'' [],
        MessagePart ''text/html'' [] [] [] ''PGI-aGk8L2I-'' []]"

definition htmlThenPlainTree :: MessagePart where
  "htmlThenPlainTree =
     MessagePart ''multipart/alternative'' [] [] [] []
       [MessagePart ''text/html'' [] [] [] ''PGI-aGk8L2I-'' [],
        MessagePart ''text/plain'' [] [] [] ''SGVsbG8gV29ybGQ='' []]"

text \<open>
  The flat message that the claim about forwards without attachments describes: the three
  header lines, a blank line, and the text as the whole body, with no boundary anywhere.
\<close>

definition flatTextPlainMessage :: "string \<Rightarrow> string \<Rightarrow> string \<Rightarrow> string" where
  "flatTextPlainMessage to subject body =
     ''To: '' @ to @ CRLF
     @ ''Subject: '' @ subject @ CRLF
     @ ''Content-Type: text/plain; charset=utf-8'' @ CRLF
     @ CRLF
     @ body"

section \<open>Properties of the modify command\<close>

lemma hasInbox_iff: "hasInbox xs \<longleftrightarrow> ''INBOX'' \<in> set xs"
  by (induction xs) auto

lemma archiveMerge_eq:
  "archiveMerge a r = (if a \<and> ''INBOX'' \<notin> set r then r @ [''INBOX''] else r)"
  by (simp add: archiveMerge_def hasInbox_iff)

lemma count_inbox_merge:
  "count_list (archiveMerge True r) ''INBOX'' = max 1 (count_list r ''INBOX'')"
  by (auto simp: archiveMerge_eq count_list_0_iff max_def not_less_eq_eq dest!: count_notin)

text \<open>The one request a run passes to the batch-modify call.\<close>

lemma Run_modify_request:
  assumes "BatchModify ids add rem \<in> set (snd (Run_modify E c))"
  shows "\<exists>idMap. fetchLabelNameToID E = Inr idMap
           \<and> ids = IDs c
           \<and> add = resolveLabelIDs E (splitCSV E (AddLabel c)) idMap
           \<and> rem = archiveMerge (Archive c) (resolveLabelIDs E (splitCSV E (RemoveLabel c)) idMap)"
  using assms
  by (auto simp: Run_modify_def Let_def split: sum.splits option.splits if_splits)

lemma splitCommas_test:
  "splitCommas [] = []"
  "splitCommas ''INBOX'' = [''INBOX'']"
  "splitCommas ''INBOX,INBOX'' = [''INBOX'', ''INBOX'']"
  by (simp_all add: splitCommas_def)

lemma Run_modify_archiveOnly:
  "Run_modify testEnv archiveOnly =
     (None, [NewService ''a@b.com'', LabelsList, BatchModify [''m1''] [] [''INBOX''],
             WriteJSON [(''modified'', JStrs [''m1'']), (''count'', JInt 1),
                        (''addedLabels'', JStrs []), (''removedLabels'', JStrs [''INBOX'']),
                        (''archived'', JBool True)]])"
  by (simp add: Run_modify_def testEnv_def archiveOnly_def splitCommas_test
      resolveLabelIDs_spec_def archiveMerge_def Let_def)

lemma Run_modify_archiveAndRemoveInbox:
  "Run_modify testEnv archiveAndRemoveInbox =
     (None, [NewService ''a@b.com'', LabelsList, BatchModify [''m1''] [] [''INBOX''],
             WriteJSON [(''modified'', JStrs [''m1'']), (''count'', JInt 1),
                        (''addedLabels'', JStrs []), (''removedLabels'', JStrs [''INBOX'']),
                        (''archived'', JBool True)]])"
  by (simp add: Run_modify_def testEnv_def archiveAndRemoveInbox_def splitCommas_test
      resolveLabelIDs_spec_def archiveMerge_def Let_def)

lemma Run_modify_archiveAndRemoveInboxTwice:
  "Run_modify testEnv archiveAndRemoveInboxTwice =
     (None, [NewService ''a@b.com'', LabelsList, BatchModify [''m1''] [] [''INBOX'', ''INBOX''],
             WriteJSON [(''modified'', JStrs [''m1'']), (''count'', JInt 1),
                        (''addedLabels'', JStrs []), (''removedLabels'', JStrs [''INBOX'', ''INBOX'']),
                        (''archived'', JBool True)]])"
  by (simp add: Run_modify_def testEnv_def archiveAndRemoveInboxTwice_def splitCommas_test
      resolveLabelIDs_spec_def archiveMerge_def Let_def)

text \<open>
  C4, as stated, fails. The claim says that with the archive flag the removal list of the
  batch-modify call holds \<^verbatim>\<open>"INBOX"\<close> exactly once, whatever the caller asked to remove.
  A caller who names the inbox twice, \<^verbatim>\<open>--remove-label INBOX,INBOX --archive\<close>, gets a
  request whose removal list holds it twice: the merge adds nothing and removes nothing.
\<close>

theorem C4_inbox_twice_counterexample:
  "Archive archiveAndRemoveInboxTwice
   \<and> BatchModify [''m1''] [] [''INBOX'', ''INBOX'']
        \<in> set (snd (Run_modify testEnv archiveAndRemoveInboxTwice))
   \<and> count_list [''INBOX'', ''INBOX''] ''INBOX'' \<noteq> 1"
  by (simp add: Run_modify_archiveAndRemoveInboxTwice) (simp add: archiveAndRemoveInboxTwice_def)

text \<open>
  C4, amended. With the archive flag, the removal list of the batch-modify call holds
  \<^verbatim>\<open>"INBOX"\<close>, as many times as the resolved removal list did and once when that had none:
  the merge never adds a second one. When the resolved removal list is \<^verbatim>\<open>["INBOX"]\<close> or is
  empty, the removal list of the call is exactly \<^verbatim>\<open>["INBOX"]\<close>.
\<close>

theorem C4_archive_inbox_once:
  assumes "Archive c" and "BatchModify ids add rem \<in> set (snd (Run_modify E c))"
  shows "\<exists>idMap. fetchLabelNameToID E = Inr idMap
          \<and> ''INBOX'' \<in> set rem
          \<and> count_list rem ''INBOX'' =
              max 1 (count_list (resolveLabelIDs E (splitCSV E (RemoveLabel c)) idMap) ''INBOX'')
          \<and> (resolveLabelIDs E (splitCSV E (RemoveLabel c)) idMap = [] \<longrightarrow> rem = [''INBOX''])
          \<and> (resolveLabelIDs E (splitCSV E (RemoveLabel c)) idMap = [''INBOX'']
               \<longrightarrow> rem = [''INBOX''])"
proof -
  from Run_modify_request [OF assms(2)] obtain idMap where
    f: "fetchLabelNameToID E = Inr idMap" and
    r: "rem = archiveMerge (Archive c) (resolveLabelIDs E (splitCSV E (RemoveLabel c)) idMap)"
    by blast
  let ?r = "resolveLabelIDs E (splitCSV E (RemoveLabel c)) idMap"
  have r': "rem = archiveMerge True ?r"
    using r assms(1) by simp
  have "''INBOX'' \<in> set rem"
    unfolding r' by (simp add: archiveMerge_eq)
  moreover have "count_list rem ''INBOX'' = max 1 (count_list ?r ''INBOX'')"
    unfolding r' by (rule count_inbox_merge)
  moreover have "?r = [] \<longrightarrow> rem = [''INBOX'']"
    unfolding r' by (simp add: archiveMerge_eq)
  moreover have "?r = [''INBOX''] \<longrightarrow> rem = [''INBOX'']"
    unfolding r' by (simp add: archiveMerge_eq)
  ultimately show ?thesis
    using f by blast
qed

theorem C4_archive_inbox_once_witness:
  "Archive archiveAndRemoveInbox
   \<and> BatchModify [''m1''] [] [''INBOX''] \<in> set (snd (Run_modify testEnv archiveAndRemoveInbox))
   \<and> resolveLabelIDs testEnv (splitCSV testEnv (RemoveLabel archiveAndRemoveInbox))
        [''INBOX'' \<mapsto> ''INBOX''] = [''INBOX'']
   \<and> count_list [''INBOX''] ''INBOX'' = 1"
proof -
  have a: "Archive archiveAndRemoveInbox"
    by (simp add: archiveAndRemoveInbox_def)
  have b: "BatchModify [''m1''] [] [''INBOX''] \<in> set (snd (Run_modify testEnv archiveAndRemoveInbox))"
    by (simp add: Run_modify_archiveAndRemoveInbox)
  have r: "resolveLabelIDs testEnv (splitCSV testEnv (RemoveLabel archiveAndRemoveInbox))
        [''INBOX'' \<mapsto> ''INBOX''] = [''INBOX'']"
    by (simp add: testEnv_def archiveAndRemoveInbox_def splitCommas_test resolveLabelIDs_spec_def)
  from C4_archive_inbox_once [OF a b] a b r show ?thesis
    by simp
qed

text \<open>
  C10. The request of the batch-modify call has the message IDs of the command and the
  resolved add-labels, neither of which the archive flag enters, and its removal list is
  the resolved removal list, followed by \<^verbatim>\<open>"INBOX"\<close> when the flag is set and the list
  does not hold it, and left as it is otherwise.
\<close>

theorem C10_archive_merge_frame:
  assumes "BatchModify ids add rem \<in> set (snd (Run_modify E c))"
  shows "\<exists>idMap. fetchLabelNameToID E = Inr idMap
          \<and> ids = IDs c
          \<and> add = resolveLabelIDs E (splitCSV E (AddLabel c)) idMap
          \<and> rem = (let resolved = resolveLabelIDs E (splitCSV E (RemoveLabel c)) idMap
                   in if Archive c \<and> ''INBOX'' \<notin> set resolved then resolved @ [''INBOX'']
                      else resolved)"
  using Run_modify_request [OF assms] by (simp add: archiveMerge_eq Let_def)

theorem C10_archive_merge_frame_witness:
  "BatchModify [''m1''] [] [''INBOX''] \<in> set (snd (Run_modify testEnv archiveOnly))
   \<and> [''m1''] = IDs archiveOnly
   \<and> resolveLabelIDs testEnv (splitCSV testEnv (RemoveLabel archiveOnly)) [''INBOX'' \<mapsto> ''INBOX''] = []
   \<and> Archive archiveOnly"
proof -
  have b: "BatchModify [''m1''] [] [''INBOX''] \<in> set (snd (Run_modify testEnv archiveOnly))"
    by (simp add: Run_modify_archiveOnly)
  have r: "resolveLabelIDs testEnv (splitCSV testEnv (RemoveLabel archiveOnly))
             [''INBOX'' \<mapsto> ''INBOX''] = []"
    by (simp add: testEnv_def archiveOnly_def splitCommas_test resolveLabelIDs_spec_def)
  from C10_archive_merge_frame [OF b] b r show ?thesis
    by (simp add: archiveOnly_def)
qed

section \<open>Properties of the forward command\<close>

subsection \<open>The multipart writer\<close>

lemma bytesLess_keys:
  "bytesLess ''Content-Disposition'' ''Content-Transfer-Encoding''"
  "bytesLess ''Content-Transfer-Encoding'' ''Content-Type''"
  "bytesLess ''Content-Disposition'' ''Content-Type''"
  "\<not> bytesLess ''Content-Transfer-Encoding'' ''Content-Disposition''"
  "\<not> bytesLess ''Content-Type'' ''Content-Transfer-Encoding''"
  "\<not> bytesLess ''Content-Type'' ''Content-Disposition''"
  by code_simp+

lemma sortedHeader_attachment:
  "sortedHeader (headerSet ''Content-Transfer-Encoding'' t
     (headerSet ''Content-Disposition'' d (headerSet ''Content-Type'' m [])))
   = [(''Content-Disposition'', d), (''Content-Transfer-Encoding'', t), (''Content-Type'', m)]"
  by (simp add: sortedHeader_def headerSet_def bytesLess_keys del: bytesLess.simps)

lemma sortedHeader_text:
  "sortedHeader (headerSet k v []) = [(k, v)]"
  by (simp add: sortedHeader_def headerSet_def)

text \<open>One attachment: nothing is written when the fetch or the decoding fails.\<close>

lemma addAttachment_eq:
  assumes "lastpart w"
  shows "addAttachmentToMultipart E w messageID att =
     (case fetched E messageID att of
        Inl e \<Rightarrow> (Some e, w, [AttachmentsGet messageID (AttachmentID att)])
      | Inr data \<Rightarrow>
         (None,
          w \<lparr> buf := buf w @ CRLF @ ''--'' @ boundary w @ CRLF @ attachmentPartBytes att data \<rparr>,
          [AttachmentsGet messageID (AttachmentID att)]))"
  using assms
  by (simp add: addAttachmentToMultipart_def fetched_def CreatePart_def partWrite_def
      sortedHeader_attachment attachmentPartBytes_def split: sum.splits)

text \<open>The loop: the writer gains the embedded parts, and every attachment is tried.\<close>

lemma attachAll_eq:
  assumes "lastpart w"
  shows "attachAll E messageID atts w =
     (w \<lparr> buf := buf w @ concat (map (\<lambda>q. CRLF @ ''--'' @ boundary w @ CRLF @ q)
                                   (embeddedParts E messageID atts)) \<rparr>,
      attachTrace E messageID atts)"
  using assms
proof (induction atts arbitrary: w)
  case Nil
  then show ?case
    by (simp add: embeddedParts_def attachTrace_def)
next
  case (Cons att atts)
  show ?case
  proof (cases "fetched E messageID att")
    case (Inl e)
    with Cons show ?thesis
      by (simp add: addAttachment_eq embeddedParts_def attachTrace_def attachWarning_def)
  next
    case (Inr data)
    let ?w = "w \<lparr> buf := buf w @ CRLF @ ''--'' @ boundary w @ CRLF @ attachmentPartBytes att data \<rparr>"
    have "lastpart ?w"
      using Cons.prems by simp
    from Cons.IH [OF this] Inr Cons.prems show ?thesis
      by (simp add: addAttachment_eq embeddedParts_def attachTrace_def)
  qed
qed

subsection \<open>The run, once the original message is there\<close>

lemma Run_forward_eq:
  assumes "requireAccount E = Inr account"
    and "TrimSpace (MessageID c) \<noteq> []"
    and "TrimSpace (To c) \<noteq> []"
    and "newGmailService E account = None"
    and "messagesGet E (TrimSpace (MessageID c)) = Inr original"
  shows "Run_forward E c =
    (let raw = encodeWeb64 (composedMessage E c original);
         tr = [NewService account, MessagesGet (TrimSpace (MessageID c))]
              @ attachTrace E (TrimSpace (MessageID c)) (collectAttachments E (Payload original))
              @ [MessagesSend raw]
     in case messagesSend E raw of
          Inl e \<Rightarrow> (Some (Wrap ''sending forwarded message'' e), tr)
        | Inr sent \<Rightarrow>
           if isJSON E
           then (writeJSON E (forwardResult E c original (fst sent) (snd sent)),
                 tr @ [WriteJSON (forwardResult E c original (fst sent) (snd sent))])
           else (None, tr @ [OutSuccessf (forwardSuccessLine E c original (fst sent))]))"
  using assms
  by (simp add: Run_forward_def Let_def CreatePart_def partWrite_def Close_def NewWriter_def
      attachAll_eq sortedHeader_text composedMessage_def multipartBody_def textPartBytes_def
      forwardResult_def forwardSuccessLine_def split: sum.splits prod.splits)

lemma Run_forward_early:
  assumes "TrimSpace (MessageID c) = [] \<or> TrimSpace (To c) = []"
  shows "Run_forward E c =
     (case requireAccount E of
        Inl e \<Rightarrow> (Some e, [])
      | Inr account \<Rightarrow>
         if TrimSpace (MessageID c) = [] then (Some (Usage ''message ID is required''), [])
         else (Some (Usage ''--to is required''), []))"
  using assms by (auto simp: Run_forward_def Let_def split: sum.splits)

lemma Run_forward_sent:
  assumes "MessagesSend raw \<in> set (snd (Run_forward E c))"
  shows "\<exists>account original.
           requireAccount E = Inr account \<and> TrimSpace (MessageID c) \<noteq> [] \<and> TrimSpace (To c) \<noteq> []
           \<and> newGmailService E account = None
           \<and> messagesGet E (TrimSpace (MessageID c)) = Inr original
           \<and> raw = encodeWeb64 (composedMessage E c original)"
proof (cases "requireAccount E")
  case (Inl e)
  with assms show ?thesis by (simp add: Run_forward_def)
next
  case (Inr account)
  note acct = this
  show ?thesis
  proof (cases "TrimSpace (MessageID c) = [] \<or> TrimSpace (To c) = []")
    case True
    from assms show ?thesis unfolding Run_forward_early [OF True] using acct by (auto split: if_splits)
  next
    case False
    then have ne: "TrimSpace (MessageID c) \<noteq> []" "TrimSpace (To c) \<noteq> []" by auto
    show ?thesis
    proof (cases "newGmailService E account")
      case (Some e)
      with assms acct ne show ?thesis by (simp add: Run_forward_def Let_def)
    next
      case None
      note svc = this
      show ?thesis
      proof (cases "messagesGet E (TrimSpace (MessageID c))")
        case (Inl e)
        with assms acct ne svc show ?thesis by (simp add: Run_forward_def Let_def)
      next
        case (Inr original)
        have notin: "MessagesSend r \<notin> set (attachTrace E m atts)" for r m atts
          by (auto simp: attachTrace_def split: sum.splits)
        from assms have "raw = encodeWeb64 (composedMessage E c original)"
          unfolding Run_forward_eq [OF acct ne svc Inr]
          by (auto simp: Let_def notin split: sum.splits if_splits)
        with acct ne svc Inr show ?thesis by blast
      qed
    qed
  qed
qed

text \<open>The result that a run writes in JSON mode.\<close>

lemma Run_forward_json:
  assumes "WriteJSON out \<in> set (snd (Run_forward E c))"
    and "messagesGet E (TrimSpace (MessageID c)) = Inr original"
  shows "\<exists>sentId threadId. out = forwardResult E c original sentId threadId"
proof (cases "requireAccount E")
  case (Inl e)
  with assms show ?thesis
    by (simp add: Run_forward_def)
next
  case (Inr account)
  note acct = this
  show ?thesis
  proof (cases "TrimSpace (MessageID c) = [] \<or> TrimSpace (To c) = []")
    case True
    from assms(1) show ?thesis
      unfolding Run_forward_early [OF True] using acct by (auto split: if_splits)
  next
    case False
    then have ne: "TrimSpace (MessageID c) \<noteq> []" "TrimSpace (To c) \<noteq> []"
      by auto
    show ?thesis
    proof (cases "newGmailService E account")
      case (Some e)
      with assms acct ne show ?thesis
        by (simp add: Run_forward_def Let_def)
    next
      case None
      have notin: "WriteJSON r \<notin> set (attachTrace E m atts)" for r m atts
        by (auto simp: attachTrace_def split: sum.splits)
      from assms(1) show ?thesis
        unfolding Run_forward_eq [OF acct ne None assms(2)]
        by (auto simp: Let_def notin split: sum.splits if_splits)
    qed
  qed
qed

subsection \<open>The test environment, evaluated\<close>

lemma TrimSpace_test:
  "TrimSpace ''m1'' = ''m1''"
  "TrimSpace ''m2'' = ''m2''"
  "TrimSpace ''recipient@example.com'' = ''recipient@example.com''"
  "TrimSpace ''  '' = []"
  by code_simp+

lemma testEnv_headers:
  "headerValue testEnv (Payload helloMessage) ''Subject'' = ''Original Subject''"
  "headerValue testEnv (Payload helloMessage) ''From'' = ''sender@example.com''"
  "headerValue testEnv (Payload helloMessage) ''To'' = ''me@example.com''"
  "headerValue testEnv (Payload helloMessage) ''Date'' = ''Mon, 03 Feb 2026 10:00:00 -0800''"
  "headerValue testEnv (Payload reportMessage) ''Subject'' = ''Original Subject''"
  by code_simp+

lemma testEnv_body:
  "bestBodyForDisplay testEnv (Payload helloMessage) = (''Hello World'', False)"
  "bestBodyForDisplay testEnv (Payload reportMessage) = (''Hello World'', False)"
  by code_simp+

lemma testEnv_attachments:
  "collectAttachments testEnv (Payload helloMessage) = []"
  "collectAttachments testEnv (Payload reportMessage) =
     [\<lparr> AttachmentID = ''att-ok'', Filename = ''report.pdf'', MimeType = ''application/pdf'' \<rparr>,
      \<lparr> AttachmentID = ''att-gone'', Filename = ''photo.png'', MimeType = ''image/png'' \<rparr>]"
  by code_simp+

lemma testEnv_fetched:
  "fetched testEnv ''m2''
     \<lparr> AttachmentID = ''att-ok'', Filename = ''report.pdf'', MimeType = ''application/pdf'' \<rparr>
   = Inr ''Hello!''"
  "fetched testEnv ''m2''
     \<lparr> AttachmentID = ''att-gone'', Filename = ''photo.png'', MimeType = ''image/png'' \<rparr>
   = Inl (Wrap ''fetching attachment'' (External ''not found''))"
  by code_simp+

lemma testEnv_simps:
  "requireAccount testEnv = Inr ''a@b.com''"
  "newGmailService testEnv a = None"
  "messagesGet testEnv ''m1'' = Inr helloMessage"
  "messagesGet testEnv ''m2'' = Inr reportMessage"
  "messagesSend testEnv raw = Inr (''sent123'', ''t1'')"
  "isJSON testEnv"
  "writeJSON testEnv out = None"
  "randomBoundary testEnv = testBoundary"
  by (simp_all add: testEnv_def)

lemma forward_cmds:
  "MessageID forwardHello = ''m1''" "To forwardHello = ''recipient@example.com''"
  "Subject forwardHello = []"
  "MessageID forwardCustom = ''m1''" "To forwardCustom = ''recipient@example.com''"
  "Subject forwardCustom = ''Custom Forward Subject''"
  "MessageID forwardReport = ''m2''" "To forwardReport = ''recipient@example.com''"
  "Subject forwardReport = []"
  "MessageID forwardBlankTo = ''m1''" "To forwardBlankTo = ''  ''"
  by (simp_all add: forwardHello_def forwardCustom_def forwardReport_def forwardBlankTo_def)

lemma Run_forward_hello:
  "Run_forward testEnv forwardHello =
     (None,
      [NewService ''a@b.com'', MessagesGet ''m1'',
       MessagesSend (encodeWeb64 (composedMessage testEnv forwardHello helloMessage)),
       WriteJSON [(''sent'', JStr ''sent123''), (''threadId'', JStr ''t1''),
                  (''to'', JStr ''recipient@example.com''),
                  (''subject'', JStr ''Fwd: Original Subject''),
                  (''forwarded'', JStr ''m1''), (''attachments'', JInt 0)]])"
proof -
  have "Run_forward testEnv forwardHello = (let raw = encodeWeb64 (composedMessage testEnv forwardHello helloMessage);
         tr = [NewService ''a@b.com'', MessagesGet (TrimSpace (MessageID forwardHello))]
              @ attachTrace testEnv (TrimSpace (MessageID forwardHello)) (collectAttachments testEnv (Payload helloMessage))
              @ [MessagesSend raw]
     in case messagesSend testEnv raw of
          Inl e \<Rightarrow> (Some (Wrap ''sending forwarded message'' e), tr)
        | Inr sent \<Rightarrow>
           if isJSON testEnv
           then (writeJSON testEnv (forwardResult testEnv forwardHello helloMessage (fst sent) (snd sent)),
                 tr @ [WriteJSON (forwardResult testEnv forwardHello helloMessage (fst sent) (snd sent))])
           else (None, tr @ [OutSuccessf (forwardSuccessLine testEnv forwardHello helloMessage (fst sent))]))"
    by (rule Run_forward_eq) (simp_all add: testEnv_simps forward_cmds TrimSpace_test)
  then show ?thesis
    by (simp add: testEnv_simps forward_cmds TrimSpace_test testEnv_attachments attachTrace_def
        forwardResult_def testEnv_headers buildSubject_def Let_def)
qed

lemma Run_forward_report:
  "Run_forward testEnv forwardReport =
     (None,
      [NewService ''a@b.com'', MessagesGet ''m2'',
       AttachmentsGet ''m2'' ''att-ok'',
       AttachmentsGet ''m2'' ''att-gone'',
       ErrPrintf ''Warning: failed to attach photo.png: fetching attachment: not found'',
       MessagesSend (encodeWeb64 (composedMessage testEnv forwardReport reportMessage)),
       WriteJSON [(''sent'', JStr ''sent123''), (''threadId'', JStr ''t1''),
                  (''to'', JStr ''recipient@example.com''),
                  (''subject'', JStr ''Fwd: Original Subject''),
                  (''forwarded'', JStr ''m2''), (''attachments'', JInt 2)]])"
proof -
  have "Run_forward testEnv forwardReport = (let raw = encodeWeb64 (composedMessage testEnv forwardReport reportMessage);
         tr = [NewService ''a@b.com'', MessagesGet (TrimSpace (MessageID forwardReport))]
              @ attachTrace testEnv (TrimSpace (MessageID forwardReport)) (collectAttachments testEnv (Payload reportMessage))
              @ [MessagesSend raw]
     in case messagesSend testEnv raw of
          Inl e \<Rightarrow> (Some (Wrap ''sending forwarded message'' e), tr)
        | Inr sent \<Rightarrow>
           if isJSON testEnv
           then (writeJSON testEnv (forwardResult testEnv forwardReport reportMessage (fst sent) (snd sent)),
                 tr @ [WriteJSON (forwardResult testEnv forwardReport reportMessage (fst sent) (snd sent))])
           else (None, tr @ [OutSuccessf (forwardSuccessLine testEnv forwardReport reportMessage (fst sent))]))"
    by (rule Run_forward_eq) (simp_all add: testEnv_simps forward_cmds TrimSpace_test)
  then show ?thesis
    by (simp add: testEnv_simps forward_cmds TrimSpace_test testEnv_attachments attachTrace_def
        forwardResult_def testEnv_headers buildSubject_def Let_def testEnv_fetched attachWarning_def)
qed

lemma Run_forward_custom:
  "Run_forward testEnv forwardCustom =
     (None,
      [NewService ''a@b.com'', MessagesGet ''m1'',
       MessagesSend (encodeWeb64 (composedMessage testEnv forwardCustom helloMessage)),
       WriteJSON [(''sent'', JStr ''sent123''), (''threadId'', JStr ''t1''),
                  (''to'', JStr ''recipient@example.com''),
                  (''subject'', JStr ''Custom Forward Subject''),
                  (''forwarded'', JStr ''m1''), (''attachments'', JInt 0)]])"
proof -
  have "Run_forward testEnv forwardCustom =
    (let raw = encodeWeb64 (composedMessage testEnv forwardCustom helloMessage);
         tr = [NewService ''a@b.com'', MessagesGet (TrimSpace (MessageID forwardCustom))]
              @ attachTrace testEnv (TrimSpace (MessageID forwardCustom))
                  (collectAttachments testEnv (Payload helloMessage))
              @ [MessagesSend raw]
     in case messagesSend testEnv raw of
          Inl e \<Rightarrow> (Some (Wrap ''sending forwarded message'' e), tr)
        | Inr sent \<Rightarrow>
           if isJSON testEnv
           then (writeJSON testEnv (forwardResult testEnv forwardCustom helloMessage (fst sent) (snd sent)),
                 tr @ [WriteJSON (forwardResult testEnv forwardCustom helloMessage (fst sent) (snd sent))])
           else (None, tr @ [OutSuccessf (forwardSuccessLine testEnv forwardCustom helloMessage (fst sent))]))"
    by (rule Run_forward_eq) (simp_all add: testEnv_simps forward_cmds TrimSpace_test)
  then show ?thesis
    by (simp add: testEnv_simps forward_cmds TrimSpace_test testEnv_attachments attachTrace_def
        forwardResult_def testEnv_headers buildSubject_def Let_def)
qed

subsection \<open>URL-safe base64\<close>

lemma indexOf_nth:
  assumes "distinct al" and "i < length al"
  shows "indexOf (al ! i) al = Some i"
  using assms
proof (induction al arbitrary: i)
  case Nil
  then show ?case by simp
next
  case (Cons x xs)
  show ?case
  proof (cases i)
    case 0
    then show ?thesis by simp
  next
    case (Suc j)
    with Cons.prems have "xs ! j \<in> set xs" and "x \<notin> set xs"
      by simp_all
    then have "xs ! j \<noteq> x"
      by auto
    with Cons Suc show ?thesis by simp
  qed
qed

lemma encodeURL_facts:
  "distinct encodeURL" "length encodeURL = 64" "CHR ''='' \<notin> set encodeURL"
  by (simp_all add: encodeURL_def)

lemma value_encodeURL:
  assumes "i < 64"
  shows "b64urlValue (encodeURL ! i) = Some i" and "encodeURL ! i \<noteq> CHR ''=''"
proof -
  from assms have i: "i < length encodeURL"
    by (simp add: encodeURL_facts)
  show "b64urlValue (encodeURL ! i) = Some i"
    unfolding b64urlValue_def using encodeURL_facts(1) i by (rule indexOf_nth)
  from i have "encodeURL ! i \<in> set encodeURL"
    by simp
  with encodeURL_facts(3) show "encodeURL ! i \<noteq> CHR ''=''"
    by auto
qed

lemma div_mod_block:
  fixes k q r :: nat
  assumes "r < k"
  shows "(k * q + r) div k = q" and "(k * q + r) mod k = r"
  using assms by simp_all

lemma sextets:
  fixes x y z :: nat
  assumes "x < 256" "y < 256" "z < 256"
  defines "n \<equiv> x * 65536 + y * 256 + z"
  shows "n div 262144 < 64"
    and "(n div 262144) * 4 + (n div 4096 mod 64) div 16 = x"
    and "(n div 4096 mod 64 mod 16) * 16 + (n div 64 mod 64) div 4 = y"
    and "(n div 64 mod 64 mod 4) * 64 + n mod 64 = z"
proof -
  define x1 x0 y1 y0 z1 z0 where
    "x1 = x div 4" and "x0 = x mod 4" and "y1 = y div 16" and "y0 = y mod 16"
    and "z1 = z div 64" and "z0 = z mod 64"
  have x: "x = 4 * x1 + x0" and y: "y = 16 * y1 + y0" and z: "z = 64 * z1 + z0"
    by (simp_all add: x1_def x0_def y1_def y0_def z1_def z0_def)
  have b: "x0 < 4" "y0 < 16" "z0 < 64" "x1 < 64" "y1 < 16" "z1 < 4"
    using assms(1-3) by (simp_all add: x1_def x0_def y1_def y0_def z1_def z0_def less_mult_imp_div_less)
  have n1: "n = 262144 * x1 + (4096 * (16 * x0 + y1) + 64 * (4 * y0 + z1) + z0)"
    and n2: "n = 4096 * (64 * x1 + (16 * x0 + y1)) + (64 * (4 * y0 + z1) + z0)"
    and n3: "n = 64 * (64 * (64 * x1 + (16 * x0 + y1)) + (4 * y0 + z1)) + z0"
    unfolding n_def x y z by simp_all
  have r1: "4096 * (16 * x0 + y1) + 64 * (4 * y0 + z1) + z0 < 262144"
    and r2: "64 * (4 * y0 + z1) + z0 < 4096"
    and r3: "16 * x0 + y1 < 64" and r4: "4 * y0 + z1 < 64"
    using b by simp_all
  have i1: "n div 262144 = x1"
    unfolding n1 using r1 by (rule div_mod_block)
  have "n div 4096 = 64 * x1 + (16 * x0 + y1)"
    unfolding n2 using r2 by (rule div_mod_block)
  then have i2: "n div 4096 mod 64 = 16 * x0 + y1"
    using r3 by (simp only: div_mod_block)
  have "n div 64 = 64 * (64 * x1 + (16 * x0 + y1)) + (4 * y0 + z1)"
    unfolding n3 using b(3) by (rule div_mod_block)
  then have i3: "n div 64 mod 64 = 4 * y0 + z1"
    using r4 by (simp only: div_mod_block)
  have i4: "n mod 64 = z0"
    unfolding n3 using b(3) by (rule div_mod_block)
  show "n div 262144 < 64"
    using i1 b by simp
  show "(n div 262144) * 4 + (n div 4096 mod 64) div 16 = x"
    unfolding i1 i2 using b(5) by (simp add: x)
  show "(n div 4096 mod 64 mod 16) * 16 + (n div 64 mod 64) div 4 = y"
    unfolding i2 i3 using b(5,6) by (simp add: y)
  show "(n div 64 mod 64 mod 4) * 64 + n mod 64 = z"
    unfolding i3 i4 using b(6) by (simp add: z)
qed

text \<open>The decoder reads back what \<^verbatim>\<open>base64.URLEncoding\<close> writes.\<close>

lemma decode_encodeWeb64: "decodeBase64URL (EncodeToString encodeURL s) = Some s"
proof (induction encodeURL s rule: EncodeToString.induct)
  case (1 a b c rest)
  have lt: "(of_char a :: nat) < 256" "(of_char b :: nat) < 256" "(of_char c :: nat) < 256" by simp_all
  note s = sextets [OF lt]
  show ?case using 1 s
    by (simp add: Let_def value_encodeURL decode4_def)
next
  case (2 a b)
  have lt: "(of_char a :: nat) < 256" "(of_char b :: nat) < 256" "(0 :: nat) < 256" by simp_all
  note s = sextets [OF lt]
  show ?case using s
    by (simp add: Let_def value_encodeURL decode3_def)
next
  case (3 a)
  have lt: "(of_char a :: nat) < 256" "(0 :: nat) < 256" "(0 :: nat) < 256" by simp_all
  note s = sextets [OF lt]
  show ?case using s
    by (simp add: Let_def value_encodeURL decode2_def)
next
  case 4
  show ?case by simp
qed

lemma encodeWeb64_inject: "encodeWeb64 s = encodeWeb64 t \<longleftrightarrow> s = t"
proof
  assume "encodeWeb64 s = encodeWeb64 t"
  then have "decodeBase64URL (EncodeToString encodeURL s) = decodeBase64URL (EncodeToString encodeURL t)"
    by (simp add: encodeWeb64_def)
  then show "s = t"
    by (simp add: decode_encodeWeb64)
qed simp

text \<open>The encoding uses the 64 characters of its alphabet and the padding character.\<close>

lemma EncodeToString_alphabet:
  assumes "length al = 64"
  shows "set (EncodeToString al s) \<subseteq> set al \<union> {CHR ''=''}"
  using assms
proof (induction al s rule: EncodeToString.induct)
  case (1 al a b c rest)
  have lt: "(of_char a :: nat) < 256" "(of_char b :: nat) < 256" "(of_char c :: nat) < 256"
    by simp_all
  have m: "al ! i \<in> set al" if "i < 64" for i
    using that "1.prems" by simp
  from sextets(1) [OF lt] 1 show ?case
    by (simp add: Let_def m)
next
  case (2 al a b)
  have lt: "(of_char a :: nat) < 256" "(of_char b :: nat) < 256" "(0 :: nat) < 256"
    by simp_all
  have m: "al ! i \<in> set al" if "i < 64" for i
    using that "2.prems" by simp
  from sextets(1) [OF lt] show ?case
    by (simp add: Let_def m)
next
  case (3 al a)
  have lt: "(of_char a :: nat) < 256" "(0 :: nat) < 256" "(0 :: nat) < 256"
    by simp_all
  have m: "al ! i \<in> set al" if "i < 64" for i
    using that "3.prems" by simp
  from sextets(1) [OF lt] show ?case
    by (simp add: Let_def m)
next
  case (4 al)
  show ?case by simp
qed

subsection \<open>The claims about the forward command\<close>

lemma composedMessage_hello:
  "composedMessage testEnv forwardHello helloMessage =
     ''To: recipient@example.com'' @ CRLF
     @ ''Subject: Fwd: Original Subject'' @ CRLF
     @ ''Content-Type: multipart/mixed; boundary='' @ DQUOTE @ testBoundary @ DQUOTE @ CRLF
     @ CRLF
     @ ''--'' @ testBoundary @ CRLF
     @ ''Content-Type: text/plain; charset=utf-8'' @ CRLF
     @ CRLF
     @ ''---------- Forwarded message ----------'' @ LF
     @ ''From: sender@example.com'' @ LF
     @ ''Date: Mon, 03 Feb 2026 10:00:00 -0800'' @ LF
     @ ''Subject: Original Subject'' @ LF
     @ ''To: me@example.com'' @ LF @ LF
     @ ''Hello World''
     @ CRLF @ ''--'' @ testBoundary @ ''--'' @ CRLF"
  by (simp add: composedMessage_def buildRawMessage_def multipartBody_def textPartBytes_def
      buildForwardBody_def buildSubject_def embeddedParts_def
      testEnv_simps forward_cmds TrimSpace_test testEnv_headers testEnv_body testEnv_attachments)

lemma composed_not_flat_hello:
  "composedMessage testEnv forwardHello helloMessage
   \<noteq> flatTextPlainMessage ''recipient@example.com'' ''Fwd: Original Subject''
        (buildForwardBody testEnv (Payload helloMessage))"
  by (simp add: composedMessage_hello flatTextPlainMessage_def CRLF_def)

lemma sent_not_flat_hello:
  "encodeWeb64 (composedMessage testEnv forwardHello helloMessage)
   \<noteq> encodeWeb64 (flatTextPlainMessage ''recipient@example.com'' ''Fwd: Original Subject''
        (buildForwardBody testEnv (Payload helloMessage)))"
  by (simp only: encodeWeb64_inject composed_not_flat_hello not_False_eq_True)

text \<open>
  C1, as stated, fails. The claim says that a forward that embeds no attachment sends a flat
  single-part \<^verbatim>\<open>text/plain\<close> message with no multipart envelope and no boundary. The
  message \<^verbatim>\<open>m1\<close> has no attachment, and what is sent for it is not the encoding of
  the flat message: the run always goes through the multipart writer.
\<close>

theorem C1_flat_message_counterexample:
  "collectAttachments testEnv (Payload helloMessage) = []
   \<and> Run_forward testEnv forwardHello =
       (None,
        [NewService ''a@b.com'', MessagesGet ''m1'',
         MessagesSend (encodeWeb64 (composedMessage testEnv forwardHello helloMessage)),
         WriteJSON [(''sent'', JStr ''sent123''), (''threadId'', JStr ''t1''),
                    (''to'', JStr ''recipient@example.com''),
                    (''subject'', JStr ''Fwd: Original Subject''),
                    (''forwarded'', JStr ''m1''), (''attachments'', JInt 0)]])
   \<and> encodeWeb64 (composedMessage testEnv forwardHello helloMessage)
       \<noteq> encodeWeb64 (flatTextPlainMessage ''recipient@example.com'' ''Fwd: Original Subject''
            (buildForwardBody testEnv (Payload helloMessage)))"
  using sent_not_flat_hello by (simp add: testEnv_attachments Run_forward_hello)

text \<open>
  C1, amended. When no attachment is embedded, because the original has none or because
  every fetch fails, the message that is sent is a \<^verbatim>\<open>multipart/mixed\<close> message whose
  body holds one part, the \<^verbatim>\<open>text/plain\<close> part with the forward text, between the
  opening and the closing delimiter line of the boundary that the header declares.
\<close>

theorem C1_no_attachment_single_part:
  assumes "MessagesSend raw \<in> set (snd (Run_forward E c))"
    and "messagesGet E (TrimSpace (MessageID c)) = Inr original"
    and "embeddedParts E (TrimSpace (MessageID c)) (collectAttachments E (Payload original)) = []"
  shows "raw = encodeWeb64
           (''To: '' @ TrimSpace (To c) @ CRLF
            @ ''Subject: '' @ buildSubject (Subject c) (headerValue E (Payload original) ''Subject'') @ CRLF
            @ ''Content-Type: multipart/mixed; boundary='' @ DQUOTE @ randomBoundary E @ DQUOTE @ CRLF
            @ CRLF
            @ ''--'' @ randomBoundary E @ CRLF
            @ ''Content-Type: text/plain; charset=utf-8'' @ CRLF
            @ CRLF
            @ buildForwardBody E (Payload original)
            @ CRLF @ ''--'' @ randomBoundary E @ ''--'' @ CRLF)"
proof -
  from Run_forward_sent [OF assms(1)] assms(2)
  have "raw = encodeWeb64 (composedMessage E c original)"
    by auto
  with assms(3) show ?thesis
    by (simp add: composedMessage_def buildRawMessage_def multipartBody_def textPartBytes_def)
qed

theorem C1_no_attachment_single_part_witness:
  "MessagesSend (encodeWeb64 (composedMessage testEnv forwardHello helloMessage))
     \<in> set (snd (Run_forward testEnv forwardHello))
   \<and> messagesGet testEnv (TrimSpace (MessageID forwardHello)) = Inr helloMessage
   \<and> embeddedParts testEnv (TrimSpace (MessageID forwardHello))
        (collectAttachments testEnv (Payload helloMessage)) = []
   \<and> encodeWeb64 (composedMessage testEnv forwardHello helloMessage) = encodeWeb64
        (''To: '' @ TrimSpace (To forwardHello) @ CRLF
         @ ''Subject: '' @ buildSubject (Subject forwardHello)
                             (headerValue testEnv (Payload helloMessage) ''Subject'') @ CRLF
         @ ''Content-Type: multipart/mixed; boundary='' @ DQUOTE @ randomBoundary testEnv @ DQUOTE @ CRLF
         @ CRLF
         @ ''--'' @ randomBoundary testEnv @ CRLF
         @ ''Content-Type: text/plain; charset=utf-8'' @ CRLF
         @ CRLF
         @ buildForwardBody testEnv (Payload helloMessage)
         @ CRLF @ ''--'' @ randomBoundary testEnv @ ''--'' @ CRLF)"
proof -
  have a: "MessagesSend (encodeWeb64 (composedMessage testEnv forwardHello helloMessage))
             \<in> set (snd (Run_forward testEnv forwardHello))"
    by (simp add: Run_forward_hello)
  have b: "messagesGet testEnv (TrimSpace (MessageID forwardHello)) = Inr helloMessage"
    by (simp add: forward_cmds TrimSpace_test testEnv_simps)
  have c: "embeddedParts testEnv (TrimSpace (MessageID forwardHello))
             (collectAttachments testEnv (Payload helloMessage)) = []"
    by (simp add: testEnv_attachments embeddedParts_def)
  from C1_no_attachment_single_part [OF a b c] a b c show ?thesis
    by blast
qed

text \<open>
  C2. The claim says that the attachment count of the result is the number of attachments
  embedded in the sent message. The message \<^verbatim>\<open>m2\<close> has two attachments and the fetch of
  the second one fails: the run warns, embeds one attachment part, and reports two.
\<close>

theorem C2_count_includes_failed:
  "Run_forward testEnv forwardReport =
     (None,
      [NewService ''a@b.com'', MessagesGet ''m2'',
       AttachmentsGet ''m2'' ''att-ok'',
       AttachmentsGet ''m2'' ''att-gone'',
       ErrPrintf ''Warning: failed to attach photo.png: fetching attachment: not found'',
       MessagesSend (encodeWeb64 (composedMessage testEnv forwardReport reportMessage)),
       WriteJSON [(''sent'', JStr ''sent123''), (''threadId'', JStr ''t1''),
                  (''to'', JStr ''recipient@example.com''),
                  (''subject'', JStr ''Fwd: Original Subject''),
                  (''forwarded'', JStr ''m2''), (''attachments'', JInt 2)]])
   \<and> composedMessage testEnv forwardReport reportMessage =
       buildRawMessage ''recipient@example.com'' ''Fwd: Original Subject''
         (''multipart/mixed; boundary='' @ DQUOTE @ testBoundary @ DQUOTE)
         (multipartBody testBoundary
            [textPartBytes (buildForwardBody testEnv (Payload reportMessage)),
             attachmentPartBytes
               \<lparr> AttachmentID = ''att-ok'', Filename = ''report.pdf'', MimeType = ''application/pdf'' \<rparr>
               ''Hello!''])
   \<and> length (embeddedParts testEnv ''m2'' (collectAttachments testEnv (Payload reportMessage))) = 1"
  by (simp add: Run_forward_report composedMessage_def embeddedParts_def buildSubject_def
      testEnv_simps forward_cmds TrimSpace_test testEnv_headers testEnv_attachments testEnv_fetched)

text \<open>
  C3. When the account, the service client, the original message and the send are there,
  the run tries every attachment in order, prints after each fetch or decoding that fails
  a warning with the file name of that attachment, sends the message with the parts of the
  attachments that succeeded, and returns no error (in JSON mode, what writing the result
  returns).
\<close>

theorem C3_attachment_failure_not_fatal:
  assumes "requireAccount E = Inr account"
    and "TrimSpace (MessageID c) \<noteq> []"
    and "TrimSpace (To c) \<noteq> []"
    and "newGmailService E account = None"
    and "messagesGet E (TrimSpace (MessageID c)) = Inr original"
    and "messagesSend E (encodeWeb64 (composedMessage E c original)) = Inr sent"
  shows "snd (Run_forward E c) =
           [NewService account, MessagesGet (TrimSpace (MessageID c))]
           @ concat (map (\<lambda>att. AttachmentsGet (TrimSpace (MessageID c)) (AttachmentID att)
                           # (case fetched E (TrimSpace (MessageID c)) att of
                                Inl e \<Rightarrow> [ErrPrintf (''Warning: failed to attach '' @ Filename att
                                                     @ '': '' @ errorString e)]
                              | Inr data \<Rightarrow> []))
                    (collectAttachments E (Payload original)))
           @ [MessagesSend (encodeWeb64 (composedMessage E c original)),
              if isJSON E then WriteJSON (forwardResult E c original (fst sent) (snd sent))
              else OutSuccessf (forwardSuccessLine E c original (fst sent))]
         \<and> fst (Run_forward E c) =
             (if isJSON E then writeJSON E (forwardResult E c original (fst sent) (snd sent))
              else None)"
  unfolding Run_forward_eq [OF assms(1-5)]
  using assms(6) by (simp add: Let_def attachTrace_def attachWarning_def cong: sum.case_cong)

theorem C3_attachment_failure_not_fatal_witness:
  "requireAccount testEnv = Inr ''a@b.com''
   \<and> TrimSpace (MessageID forwardReport) \<noteq> []
   \<and> TrimSpace (To forwardReport) \<noteq> []
   \<and> newGmailService testEnv ''a@b.com'' = None
   \<and> messagesGet testEnv (TrimSpace (MessageID forwardReport)) = Inr reportMessage
   \<and> messagesSend testEnv (encodeWeb64 (composedMessage testEnv forwardReport reportMessage))
       = Inr (''sent123'', ''t1'')
   \<and> fst (Run_forward testEnv forwardReport) = None
   \<and> ErrPrintf ''Warning: failed to attach photo.png: fetching attachment: not found''
       \<in> set (snd (Run_forward testEnv forwardReport))"
proof -
  have h: "requireAccount testEnv = Inr ''a@b.com''"
    "TrimSpace (MessageID forwardReport) \<noteq> []"
    "TrimSpace (To forwardReport) \<noteq> []"
    "newGmailService testEnv ''a@b.com'' = None"
    "messagesGet testEnv (TrimSpace (MessageID forwardReport)) = Inr reportMessage"
    "messagesSend testEnv (encodeWeb64 (composedMessage testEnv forwardReport reportMessage))
       = Inr (''sent123'', ''t1'')"
    by (simp_all add: testEnv_simps forward_cmds TrimSpace_test)
  from C3_attachment_failure_not_fatal [OF h] h show ?thesis
    by (simp add: testEnv_simps forward_cmds TrimSpace_test testEnv_attachments testEnv_fetched)
qed

text \<open>
  C6. What is sent is the URL-safe base64 encoding, as \<^verbatim>\<open>base64.URLEncoding\<close> writes it,
  of the bytes made of the \<^verbatim>\<open>To\<close> line, the \<^verbatim>\<open>Subject\<close> line and the
  \<^verbatim>\<open>Content-Type\<close> line, each ended by CR LF, one more CR LF, and the body. The
  encoding has only characters of the URL-safe alphabet and the padding character, and
  decoding it gives the bytes back.
\<close>

theorem C6_crlf_then_web64:
  assumes "MessagesSend raw \<in> set (snd (Run_forward E c))"
  shows "\<exists>original.
           messagesGet E (TrimSpace (MessageID c)) = Inr original
           \<and> (let message =
                    ''To: '' @ TrimSpace (To c) @ [CHR 0x0D, CHR 0x0A]
                    @ ''Subject: ''
                    @ buildSubject (Subject c) (headerValue E (Payload original) ''Subject'')
                    @ [CHR 0x0D, CHR 0x0A]
                    @ ''Content-Type: '' @ ''multipart/mixed; boundary='' @ DQUOTE
                    @ randomBoundary E @ DQUOTE @ [CHR 0x0D, CHR 0x0A]
                    @ [CHR 0x0D, CHR 0x0A]
                    @ multipartBody (randomBoundary E)
                        (textPartBytes (buildForwardBody E (Payload original))
                         # embeddedParts E (TrimSpace (MessageID c))
                             (collectAttachments E (Payload original)))
               in raw = EncodeToString encodeURL message
                  \<and> set raw \<subseteq> set encodeURL \<union> {CHR ''=''}
                  \<and> decodeBase64URL raw = Some message)"
proof -
  from Run_forward_sent [OF assms] obtain original where
    g: "messagesGet E (TrimSpace (MessageID c)) = Inr original" and
    r: "raw = encodeWeb64 (composedMessage E c original)"
    by blast
  have "set raw \<subseteq> set encodeURL \<union> {CHR ''=''}"
    unfolding r encodeWeb64_def by (rule EncodeToString_alphabet) (rule encodeURL_facts)
  moreover have "decodeBase64URL raw = Some (composedMessage E c original)"
    unfolding r encodeWeb64_def by (rule decode_encodeWeb64)
  ultimately show ?thesis
    using g r
    by (simp add: composedMessage_def buildRawMessage_def encodeWeb64_def CRLF_def Let_def)
qed

theorem C6_crlf_then_web64_witness:
  "MessagesSend (encodeWeb64 (composedMessage testEnv forwardHello helloMessage))
     \<in> set (snd (Run_forward testEnv forwardHello))
   \<and> messagesGet testEnv (TrimSpace (MessageID forwardHello)) = Inr helloMessage
   \<and> set (encodeWeb64 (composedMessage testEnv forwardHello helloMessage))
       \<subseteq> set encodeURL \<union> {CHR ''=''}"
proof -
  have a: "MessagesSend (encodeWeb64 (composedMessage testEnv forwardHello helloMessage))
             \<in> set (snd (Run_forward testEnv forwardHello))"
    by (simp add: Run_forward_hello)
  have b: "messagesGet testEnv (TrimSpace (MessageID forwardHello)) = Inr helloMessage"
    by (simp add: testEnv_simps forward_cmds TrimSpace_test)
  from C6_crlf_then_web64 [OF a] have
    "set (encodeWeb64 (composedMessage testEnv forwardHello helloMessage))
       \<subseteq> set encodeURL \<union> {CHR ''=''}"
    unfolding Let_def by blast
  with a b show ?thesis
    by blast
qed

text \<open>
  C7. The subject of the message, in its \<^verbatim>\<open>Subject\<close> line and in the result, is the
  \<^verbatim>\<open>--subject\<close> value as it is when that is not empty, and \<^verbatim>\<open>"Fwd: "\<close> followed by the
  \<^verbatim>\<open>Subject\<close> header of the original otherwise. The subject of the original is written
  into the quoted preamble of the text part, and with an override nowhere else.
\<close>

theorem C7_subject_override_or_fwd:
  assumes "MessagesSend raw \<in> set (snd (Run_forward E c))"
  shows "\<exists>original.
           messagesGet E (TrimSpace (MessageID c)) = Inr original
           \<and> (let originalSubject = headerValue E (Payload original) ''Subject'';
                   subject = (if Subject c \<noteq> [] then Subject c else ''Fwd: '' @ originalSubject)
               in raw = encodeWeb64
                    (''To: '' @ TrimSpace (To c) @ CRLF
                     @ ''Subject: '' @ subject @ CRLF
                     @ ''Content-Type: multipart/mixed; boundary='' @ DQUOTE @ randomBoundary E
                     @ DQUOTE @ CRLF
                     @ CRLF
                     @ ''--'' @ randomBoundary E @ CRLF
                     @ ''Content-Type: text/plain; charset=utf-8'' @ CRLF
                     @ CRLF
                     @ ''---------- Forwarded message ----------'' @ LF
                     @ ''From: '' @ headerValue E (Payload original) ''From'' @ LF
                     @ ''Date: '' @ headerValue E (Payload original) ''Date'' @ LF
                     @ ''Subject: '' @ originalSubject @ LF
                     @ ''To: '' @ headerValue E (Payload original) ''To'' @ LF @ LF
                     @ fst (bestBodyForDisplay E (Payload original))
                     @ concat (map (\<lambda>q. CRLF @ ''--'' @ randomBoundary E @ CRLF @ q)
                                 (embeddedParts E (TrimSpace (MessageID c))
                                    (collectAttachments E (Payload original))))
                     @ CRLF @ ''--'' @ randomBoundary E @ ''--'' @ CRLF)
                  \<and> (\<forall>out. WriteJSON out \<in> set (snd (Run_forward E c))
                         \<longrightarrow> map_of out ''subject'' = Some (JStr subject)))"
proof -
  from Run_forward_sent [OF assms] obtain original where
    g: "messagesGet E (TrimSpace (MessageID c)) = Inr original" and
    r: "raw = encodeWeb64 (composedMessage E c original)"
    by blast
  have s: "buildSubject (Subject c) (headerValue E (Payload original) ''Subject'')
           = (if Subject c \<noteq> [] then Subject c
              else ''Fwd: '' @ headerValue E (Payload original) ''Subject'')"
    by (simp add: buildSubject_def)
  have j: "map_of out ''subject''
           = Some (JStr (buildSubject (Subject c) (headerValue E (Payload original) ''Subject'')))"
    if "WriteJSON out \<in> set (snd (Run_forward E c))" for out
    using Run_forward_json [OF that g] by (auto simp: forwardResult_def)
  have m: "composedMessage E c original =
             ''To: '' @ TrimSpace (To c) @ CRLF
             @ ''Subject: '' @ buildSubject (Subject c) (headerValue E (Payload original) ''Subject'')
             @ CRLF
             @ ''Content-Type: multipart/mixed; boundary='' @ DQUOTE @ randomBoundary E
             @ DQUOTE @ CRLF
             @ CRLF
             @ ''--'' @ randomBoundary E @ CRLF
             @ ''Content-Type: text/plain; charset=utf-8'' @ CRLF
             @ CRLF
             @ ''---------- Forwarded message ----------'' @ LF
             @ ''From: '' @ headerValue E (Payload original) ''From'' @ LF
             @ ''Date: '' @ headerValue E (Payload original) ''Date'' @ LF
             @ ''Subject: '' @ headerValue E (Payload original) ''Subject'' @ LF
             @ ''To: '' @ headerValue E (Payload original) ''To'' @ LF @ LF
             @ fst (bestBodyForDisplay E (Payload original))
             @ concat (map (\<lambda>q. CRLF @ ''--'' @ randomBoundary E @ CRLF @ q)
                         (embeddedParts E (TrimSpace (MessageID c))
                            (collectAttachments E (Payload original))))
             @ CRLF @ ''--'' @ randomBoundary E @ ''--'' @ CRLF"
    by (simp add: composedMessage_def buildRawMessage_def multipartBody_def textPartBytes_def
        buildForwardBody_def)
  show ?thesis
    using g r j unfolding m s Let_def by blast
qed

theorem C7_subject_override_or_fwd_witness:
  "MessagesSend (encodeWeb64 (composedMessage testEnv forwardCustom helloMessage))
     \<in> set (snd (Run_forward testEnv forwardCustom))
   \<and> Subject forwardCustom \<noteq> []
   \<and> WriteJSON [(''sent'', JStr ''sent123''), (''threadId'', JStr ''t1''),
                (''to'', JStr ''recipient@example.com''),
                (''subject'', JStr ''Custom Forward Subject''),
                (''forwarded'', JStr ''m1''), (''attachments'', JInt 0)]
       \<in> set (snd (Run_forward testEnv forwardCustom))
   \<and> encodeWeb64 (composedMessage testEnv forwardCustom helloMessage) = encodeWeb64
       (''To: recipient@example.com'' @ CRLF
        @ ''Subject: Custom Forward Subject'' @ CRLF
        @ ''Content-Type: multipart/mixed; boundary='' @ DQUOTE @ testBoundary @ DQUOTE @ CRLF
        @ CRLF
        @ ''--'' @ testBoundary @ CRLF
        @ ''Content-Type: text/plain; charset=utf-8'' @ CRLF
        @ CRLF
        @ ''---------- Forwarded message ----------'' @ LF
        @ ''From: sender@example.com'' @ LF
        @ ''Date: Mon, 03 Feb 2026 10:00:00 -0800'' @ LF
        @ ''Subject: Original Subject'' @ LF
        @ ''To: me@example.com'' @ LF @ LF
        @ ''Hello World''
        @ CRLF @ ''--'' @ testBoundary @ ''--'' @ CRLF)"
proof -
  have a: "MessagesSend (encodeWeb64 (composedMessage testEnv forwardCustom helloMessage))
             \<in> set (snd (Run_forward testEnv forwardCustom))"
    by (simp add: Run_forward_custom)
  from C7_subject_override_or_fwd [OF a] a show ?thesis
    by (simp add: Let_def Run_forward_custom testEnv_simps forward_cmds TrimSpace_test
        testEnv_headers testEnv_body testEnv_attachments embeddedParts_def)
qed



text \<open>
  C9. When the message ID or the recipient is empty after trimming, the run returns an
  error and has no effect at all: no service client, no remote call, no output. The error
  is the usage error of the validation, unless the account lookup, which comes first, has
  already failed.
\<close>

theorem C9_validation_before_remote:
  assumes "TrimSpace (MessageID c) = [] \<or> TrimSpace (To c) = []"
  shows "snd (Run_forward E c) = []
         \<and> filter isRemoteCall (snd (Run_forward E c)) = []
         \<and> (\<exists>e. fst (Run_forward E c) = Some e)
         \<and> (\<forall>account. requireAccount E = Inr account \<longrightarrow>
               fst (Run_forward E c) =
                 Some (Usage (if TrimSpace (MessageID c) = [] then ''message ID is required''
                              else ''--to is required'')))"
  unfolding Run_forward_early [OF assms] by (auto split: sum.splits)

theorem C9_validation_before_remote_witness:
  "(TrimSpace (MessageID forwardBlankTo) = [] \<or> TrimSpace (To forwardBlankTo) = [])
   \<and> requireAccount testEnv = Inr ''a@b.com''
   \<and> Run_forward testEnv forwardBlankTo = (Some (Usage ''--to is required''), [])"
proof -
  have a: "TrimSpace (MessageID forwardBlankTo) = [] \<or> TrimSpace (To forwardBlankTo) = []"
    by (simp add: forward_cmds TrimSpace_test)
  have b: "requireAccount testEnv = Inr ''a@b.com''"
    by (simp add: testEnv_simps)
  from C9_validation_before_remote [OF a, of testEnv] a b show ?thesis
    by (cases "Run_forward testEnv forwardBlankTo") (simp add: forward_cmds TrimSpace_test)
qed

section \<open>Properties of the body selector of the specification\<close>

text \<open>The walk returns the first candidate of the pre-order list that decodes.\<close>

lemma findPartBody_candidates:
  "findPartBody mt t = (case candidates mt t of [] \<Rightarrow> None | s # rest \<Rightarrow> Some s)"
  "findPartsBody mt ts =
     (case List.map_filter
             (\<lambda>p. if mimeType p = mt \<and> bodyData p \<noteq> [] then decodeBase64URL (bodyData p) else None)
             (concat (map allParts ts)) of
        [] \<Rightarrow> None
      | s # rest \<Rightarrow> Some s)"
proof (induction mt t and mt ts rule: findPartBody_findPartsBody.induct)
  case (1 mt m f h a d ps)
  then show ?case
    by (simp add: candidates_def List.map_filter_simps split: option.splits)
next
  case (2 mt)
  show ?case
    by (simp add: List.map_filter_simps)
next
  case (3 mt p ps)
  then show ?case
    by (simp add: candidates_def List.map_filter_def split: option.splits list.splits)
qed

lemma selector_trees:
  "bestBodyForDisplay_spec undecodablePlainTree = (''<b>hi</b>'', True)"
  "hasPartWithData ''text/plain'' undecodablePlainTree"
  "hasPart ''text/html'' undecodablePlainTree"
  "candidates ''text/plain'' undecodablePlainTree = []"
  "bestBodyForDisplay_spec htmlThenPlainTree = (''Hello World'', False)"
  "candidates ''text/plain'' htmlThenPlainTree = [''Hello World'']"
  "candidates ''text/html'' htmlThenPlainTree = [''<b>hi</b>'']"
  by code_simp+

text \<open>
  C5, as stated, fails on the selector of the specification. The claim gives the plain
  text to every tree that has a \<^verbatim>\<open>text/plain\<close> part with body data and a \<^verbatim>\<open>text/html\<close>
  part. This tree has both, the data of its plain part is not base64, and section 4.2
  passes over a part that does not decode: the selector returns the HTML.
\<close>

theorem C5_undecodable_plain_counterexample:
  "hasPartWithData ''text/plain'' undecodablePlainTree
   \<and> hasPart ''text/html'' undecodablePlainTree
   \<and> bestBodyForDisplay_spec undecodablePlainTree = (''<b>hi</b>'', True)"
  by (simp add: selector_trees)

text \<open>
  C5, amended. For every tree with a \<^verbatim>\<open>text/plain\<close> part whose non-empty body data
  decodes, the selector returns the decoded content of the first such part in pre-order,
  not flagged as a fallback, whatever HTML the tree has. The HTML fallback is taken only
  when the tree has no such part, and then gives the first \<^verbatim>\<open>text/html\<close> part that
  decodes.
\<close>

theorem C5_plain_text_wins:
  "(candidates ''text/plain'' t \<noteq> [] \<longrightarrow>
      bestBodyForDisplay_spec t = (hd (candidates ''text/plain'' t), False))
   \<and> (snd (bestBodyForDisplay_spec t) \<longrightarrow>
        candidates ''text/plain'' t = []
        \<and> candidates ''text/html'' t \<noteq> []
        \<and> fst (bestBodyForDisplay_spec t) = hd (candidates ''text/html'' t))"
  by (auto simp: bestBodyForDisplay_spec_def findPartBody_candidates split: list.splits)

theorem C5_plain_text_wins_witness:
  "candidates ''text/plain'' htmlThenPlainTree \<noteq> []
   \<and> candidates ''text/html'' htmlThenPlainTree \<noteq> []
   \<and> bestBodyForDisplay_spec htmlThenPlainTree = (''Hello World'', False)
   \<and> snd (bestBodyForDisplay_spec undecodablePlainTree)
   \<and> candidates ''text/plain'' undecodablePlainTree = []"
  using C5_plain_text_wins [of htmlThenPlainTree] C5_plain_text_wins [of undecodablePlainTree]
  by (simp add: selector_trees)

end
